theory Spec2Isabelle
  imports Main "HOL-Library.AList"
begin


section \<open>Python values\<close>

text \<open>
  Journal entries, the auxiliary state handed over by the host and decoded JSON bodies
  are Python dictionaries with string keys and arbitrary JSON values. A dictionary is an
  association list: \<open>d[k] = v\<close> replaces the value of an existing key in place and
  appends a new key, which is what \<open>AList.update\<close> does. JSON numbers are integers here.
  Strings are lists of 8-bit characters, read as code points below 256.
\<close>

datatype pyval =
    PNone
  | PBool bool
  | PInt int
  | PStr string
  | PList "pyval list"
  | PDict "(string \<times> pyval) list"

type_synonym pydict = "(string \<times> pyval) list"

datatype pyerror = TypeError | NameError

text \<open>Truth value testing, as \<open>if x:\<close> and \<open>not x\<close> do it.\<close>

fun truthy :: "pyval \<Rightarrow> bool" where
  "truthy PNone = False"
| "truthy (PBool b) = b"
| "truthy (PInt i) = (i \<noteq> 0)"
| "truthy (PStr s) = (s \<noteq> [])"
| "truthy (PList xs) = (xs \<noteq> [])"
| "truthy (PDict d) = (d \<noteq> [])"

text \<open>Lists and dictionaries are unhashable: a set membership test on them raises.\<close>

fun hashable :: "pyval \<Rightarrow> bool" where
  "hashable (PList xs) = False"
| "hashable (PDict d) = False"
| "hashable v = True"

text \<open>\<open>d.get(k)\<close>: the value, or \<open>None\<close> for a missing key.\<close>

definition py_get :: "pydict \<Rightarrow> string \<Rightarrow> pyval" where
  "py_get d k = (case map_of d k of None \<Rightarrow> PNone | Some v \<Rightarrow> v)"

text \<open>\<open>d.get(k, default)\<close>.\<close>

definition py_get_default :: "pydict \<Rightarrow> string \<Rightarrow> pyval \<Rightarrow> pyval" where
  "py_get_default d k dflt = (case map_of d k of None \<Rightarrow> dflt | Some v \<Rightarrow> v)"

section \<open>String methods\<close>

definition isspace :: "char \<Rightarrow> bool" where
  "isspace c = ((of_char c :: nat) \<in> {9, 10, 11, 12, 13, 28, 29, 30, 31, 32, 133, 160})"

definition strip :: "string \<Rightarrow> string" where
  "strip s = rev (dropWhile isspace (rev (dropWhile isspace s)))"

text \<open>\<open>s.split(sep)\<close> with a one-character separator: every occurrence cuts, empty pieces
  are kept, and the empty string gives one empty piece.\<close>

fun split_on :: "char \<Rightarrow> string \<Rightarrow> string list" where
  "split_on sep [] = [[]]"
| "split_on sep (c # cs) =
     (if c = sep then [] # split_on sep cs
      else (case split_on sep cs of
              [] \<Rightarrow> [[c]]
            | p # ps \<Rightarrow> (c # p) # ps))"

fun join :: "string \<Rightarrow> string list \<Rightarrow> string" where
  "join sep [] = []"
| "join sep [p] = p"
| "join sep (p # q # ps) = p @ sep @ join sep (q # ps)"

definition lower_char :: "char \<Rightarrow> char" where
  "lower_char c =
     (let n = (of_char c :: nat)
      in if (65 \<le> n \<and> n \<le> 90) \<or> (192 \<le> n \<and> n \<le> 222 \<and> n \<noteq> 215)
         then char_of (n + 32) else c)"

definition lower :: "string \<Rightarrow> string" where
  "lower s = map lower_char s"

section \<open>permissions.py\<close>

text \<open>The two settings the plugin reads with \<open>config.get_str\<close>; an unset key reads \<open>None\<close>.\<close>

record config =
  edsts_api_key :: "string option"
  edsts_user_permissions :: "string option"

definition get_permissions_header :: "config \<Rightarrow> string" where
  "get_permissions_header cfg =
     (case edsts_user_permissions cfg of
        None \<Rightarrow> ''EDStS''
      | Some user_perm \<Rightarrow>
          if user_perm = [] then ''EDStS''
          else ''EDStS,'' @ join '','' [strip p. p \<leftarrow> split_on CHR '','' user_perm, strip p \<noteq> []])"

section \<open>The network and the observable effects\<close>

text \<open>
  A request is the method with its URL, its headers (POST) or query parameters (GET), the
  JSON body (POST) and the timeout. The \<open>requests\<close> library either raises (connection
  failure, timeout) or returns a response with a status code and a body;
  \<open>response.json()\<close> raises when the body is not JSON, which is the body \<open>None\<close> here.
  The network is a parameter of the model: the answer to the \<open>n\<close>-th request.
\<close>

datatype request =
    Post string "(string \<times> string) list" pydict nat
  | Get string "(string \<times> string) list" nat

datatype net_result = NetError | Reply int "pyval option"

type_synonym network = "nat \<Rightarrow> request \<Rightarrow> net_result"

datatype effect = Net request | Sleep nat | Fetch

fun requests_of :: "effect list \<Rightarrow> request list" where
  "requests_of [] = []"
| "requests_of (Net r # es) = r # requests_of es"
| "requests_of (e # es) = requests_of es"

fun sleeps_of :: "effect list \<Rightarrow> nat list" where
  "sleeps_of [] = []"
| "sleeps_of (Sleep n # es) = n # sleeps_of es"
| "sleeps_of (e # es) = sleeps_of es"

section \<open>Program state\<close>

datatype timer = Armed | Cancelled | Fired

datatype thread = Alive | Finished

datatype label_text = Connected | Disconnected

text \<open>
  The module-level \<open>EDStSState\<close> object \<open>this\<close>, the \<open>FCWorker\<close> it owns, the
  configuration store, the timers created so far and the trace of effects.
  \<open>verification_timer\<close> is the index of the timer object the field refers to.
\<close>

record world =
  config :: config
  status_label :: "label_text option"
  verification_timer :: "nat option"
  timers :: "timer list"
  event_queue :: "pydict option list"
  is_connected :: pyval
  last_activity_check :: pyval
  worker_thread :: "thread option"
  shutting_down :: bool
  fc_queue :: "(pydict \<times> pydict) option list"
  fc_worker_thread :: "thread option"
  fc_shutting_down :: bool
  effects :: "effect list"

definition init_world :: world where
  "init_world =
     \<lparr> config = \<lparr> edsts_api_key = None, edsts_user_permissions = None \<rparr>,
       status_label = None,
       verification_timer = None,
       timers = [],
       event_queue = [],
       is_connected = PBool False,
       last_activity_check = PNone,
       worker_thread = None,
       shutting_down = False,
       fc_queue = [],
       fc_worker_thread = None,
       fc_shutting_down = False,
       effects = [] \<rparr>"

definition emit :: "effect \<Rightarrow> world \<Rightarrow> world" where
  "emit e w = w\<lparr>effects := effects w @ [e]\<rparr>"

text \<open>One call of \<open>requests.post\<close> or \<open>requests.get\<close>: the request is recorded and the
  network answers.\<close>

definition send :: "network \<Rightarrow> request \<Rightarrow> world \<Rightarrow> net_result \<times> world" where
  "send net r w = (net (length (requests_of (effects w))) r, emit (Net r) w)"

definition API_BASE :: string where
  "API_BASE = ''https://edsts.7thseraph.org''"

definition JOURNAL_ENDPOINT :: string where
  "JOURNAL_ENDPOINT = API_BASE @ ''/api/journal/event''"

definition CHECK_INTERVAL :: nat where
  "CHECK_INTERVAL = 600"

section \<open>load.py\<close>

text \<open>
  \<open>should_process_event\<close> reads the module global \<open>IMPORTANT_EVENTS\<close>. No statement of
  load.py binds that name and nothing is imported with a star, so the global is unbound
  (\<open>None\<close> here) and the lookup raises \<open>NameError\<close>. The timestamp argument is not used.
\<close>

definition IMPORTANT_EVENTS :: "string list option" where
  "IMPORTANT_EVENTS = None"

definition should_process_event :: "string \<Rightarrow> string \<Rightarrow> pyerror + bool" where
  "should_process_event event_name timestamp =
     (case IMPORTANT_EVENTS of
        None \<Rightarrow> Inl NameError
      | Some events \<Rightarrow> if event_name \<notin> set events then Inr False else Inr True)"

definition no_api_key :: "world \<Rightarrow> bool" where
  "no_api_key w = (case edsts_api_key (config w) of None \<Rightarrow> True | Some k \<Rightarrow> k = [])"

definition the_api_key :: "world \<Rightarrow> string" where
  "the_api_key w = (case edsts_api_key (config w) of None \<Rightarrow> [] | Some k \<Rightarrow> k)"

definition journal_request :: "string \<Rightarrow> string \<Rightarrow> pydict \<Rightarrow> request" where
  "journal_request api_key permissions payload =
     Post JOURNAL_ENDPOINT
       [(''Content-Type'', ''application/json''),
        (''x-api-key'', api_key),
        (''x-permissions'', permissions)]
       payload 10"

text \<open>
  \<open>submit_journal_event\<close> returns a bool. Every exception of the body is caught by its
  \<open>except Exception\<close> and turned into \<open>False\<close>.
\<close>

definition submit_journal_event :: "network \<Rightarrow> pydict \<Rightarrow> world \<Rightarrow> bool \<times> world" where
  "submit_journal_event net event w =
     (if \<not> truthy (is_connected w) then (False, w)
      else if no_api_key w then (False, w)
      else
        (case send net (journal_request (the_api_key w) (get_permissions_header (config w)) event) w of
           (NetError, w1) \<Rightarrow> (False, w1)
         | (Reply status_code body, w1) \<Rightarrow>
             if status_code = 401 then (False, w1\<lparr>is_connected := PBool False\<rparr>)
             else if status_code \<noteq> 200 then (False, w1)
             else (True, w1)))"

definition verify_request :: "string \<Rightarrow> request" where
  "verify_request api_key = Get (API_BASE @ ''/api/auth/verify'') [(''key'', api_key)] 5"

text \<open>
  What \<open>verify_api_key\<close> makes of a decoded body: only a dictionary has \<open>.get\<close>, any
  other JSON value raises \<open>AttributeError\<close> (the result \<open>None\<close> here). A string is
  compared in lower case with \<open>"true"\<close>; any other value is passed on as it is.
\<close>

definition valid_field :: "pyval \<Rightarrow> pyval option" where
  "valid_field result =
     (case result of
        PDict d \<Rightarrow>
          (let is_valid = py_get_default d ''valid'' (PBool False)
           in (case is_valid of
                 PStr s \<Rightarrow> Some (PBool (lower s = ''true''))
               | _ \<Rightarrow> Some is_valid))
      | _ \<Rightarrow> None)"

definition verify_api_key :: "network \<Rightarrow> string \<Rightarrow> world \<Rightarrow> pyval \<times> world" where
  "verify_api_key net api_key w =
     (case send net (verify_request api_key) w of
        (NetError, w1) \<Rightarrow> (PBool False, w1\<lparr>is_connected := PBool False\<rparr>)
      | (Reply status_code body, w1) \<Rightarrow>
          (case body of
             None \<Rightarrow> (PBool False, w1\<lparr>is_connected := PBool False\<rparr>)
           | Some result \<Rightarrow>
               (case valid_field result of
                  None \<Rightarrow> (PBool False, w1\<lparr>is_connected := PBool False\<rparr>)
                | Some is_valid \<Rightarrow> (is_valid, w1\<lparr>is_connected := is_valid\<rparr>))))"

definition update_status_label :: "network \<Rightarrow> world \<Rightarrow> world" where
  "update_status_label net w =
     (case status_label w of
        None \<Rightarrow> w
      | Some l \<Rightarrow>
          if no_api_key w then w\<lparr>status_label := Some Disconnected\<rparr>
          else
            (case verify_api_key net (the_api_key w) w of
               (is_valid, w1) \<Rightarrow>
                 w1\<lparr>status_label := Some (if truthy is_valid then Connected else Disconnected)\<rparr>))"

text \<open>\<open>Timer.cancel\<close> stops a timer that has not fired yet and does nothing otherwise.\<close>

definition cancel :: "nat \<Rightarrow> timer list \<Rightarrow> timer list" where
  "cancel i ts = (if i < length ts \<and> ts ! i = Armed then ts[i := Cancelled] else ts)"

definition schedule_verification :: "world \<Rightarrow> world" where
  "schedule_verification w =
     (let ts = (case verification_timer w of None \<Rightarrow> timers w | Some i \<Rightarrow> cancel i (timers w))
      in w\<lparr>timers := ts @ [Armed], verification_timer := Some (length ts)\<rparr>)"

definition periodic_check :: "network \<Rightarrow> world \<Rightarrow> world" where
  "periodic_check net w = schedule_verification (update_status_label net w)"

text \<open>The timer thread: an armed timer runs \<open>periodic_check\<close> when its interval is over.\<close>

definition timer_fire :: "network \<Rightarrow> nat \<Rightarrow> world \<Rightarrow> world" where
  "timer_fire net i w =
     (if i < length (timers w) \<and> timers w ! i = Armed
      then periodic_check net (w\<lparr>timers := (timers w)[i := Fired]\<rparr>)
      else w)"

definition plugin_start3 :: "world \<Rightarrow> world" where
  "plugin_start3 w = w\<lparr>worker_thread := Some Alive, fc_worker_thread := Some Alive\<rparr>"

text \<open>\<open>FCWorker.stop\<close>: a \<open>Queue\<close> object is always true, so the sentinel is always put.
  The joins wait at most two seconds and change nothing.\<close>

definition fc_stop :: "world \<Rightarrow> world" where
  "fc_stop w = w\<lparr>fc_shutting_down := True, fc_queue := fc_queue w @ [None]\<rparr>"

definition plugin_stop :: "world \<Rightarrow> world" where
  "plugin_stop w = fc_stop (w\<lparr>shutting_down := True, event_queue := event_queue w @ [None]\<rparr>)"

definition save_api_key :: "network \<Rightarrow> string \<Rightarrow> world \<Rightarrow> world" where
  "save_api_key net api_key w =
     (if api_key = [] then w
      else
        (case verify_api_key net api_key
                (w\<lparr>config := (config w)\<lparr>edsts_api_key := Some api_key\<rparr>\<rparr>) of
           (is_valid, w1) \<Rightarrow> update_status_label net w1))"

definition clear_api_key :: "network \<Rightarrow> world \<Rightarrow> world" where
  "clear_api_key net w =
     update_status_label net (w\<lparr>config := (config w)\<lparr>edsts_api_key := None\<rparr>\<rparr>)"

definition save_user_permissions :: "string \<Rightarrow> world \<Rightarrow> world" where
  "save_user_permissions permissions w =
     w\<lparr>config := (config w)\<lparr>edsts_user_permissions := Some permissions\<rparr>\<rparr>"

definition plugin_app :: "network \<Rightarrow> world \<Rightarrow> world" where
  "plugin_app net w =
     schedule_verification (update_status_label net (w\<lparr>status_label := Some Disconnected\<rparr>))"

section \<open>workers/fc\_worker.py\<close>

definition FC_EVENTS :: "string list" where
  "FC_EVENTS =
     [''CarrierJump'', ''CarrierBuy'', ''CarrierStats'', ''CarrierDockingPermission'',
      ''CarrierCrewServices'', ''CarrierFinance'', ''CarrierTradeOrder'', ''CarrierDepositFuel'',
      ''Docked'', ''Undocked'', ''MarketBuy'', ''MarketSell'', ''StoredShips'', ''ShipyardBuy'',
      ''ModuleBuy'', ''ModuleSell'']"

text \<open>\<open>event in FC_EVENTS\<close> hashes the value first and raises on an unhashable one; no
  other value than a string equals a member of the set.\<close>

definition should_handle_event :: "pydict \<Rightarrow> pyerror + bool" where
  "should_handle_event entry =
     (let event = py_get entry ''event''
      in if hashable event then Inr (event \<in> set (map PStr FC_EVENTS)) else Inl TypeError)"

definition process_event :: "pydict \<Rightarrow> pydict \<Rightarrow> world \<Rightarrow> pyerror + world" where
  "process_event entry state w =
     (case should_handle_event entry of
        Inl e \<Rightarrow> Inl e
      | Inr handle \<Rightarrow>
          if handle then Inr (w\<lparr>fc_queue := fc_queue w @ [Some (entry, state)]\<rparr>) else Inr w)"

text \<open>Lines 95 to 98 of \<open>_handle_event\<close>: the two assignments into the entry.\<close>

definition enrich :: "pydict \<Rightarrow> pydict \<Rightarrow> pydict" where
  "enrich entry state =
     (let entry1 = (if truthy (py_get state ''ShipID'')
                    then AList.update ''_shipId'' (py_get state ''ShipID'') entry
                    else entry)
      in if truthy (py_get state ''SystemAddress'')
         then AList.update ''_systemAddress'' (py_get state ''SystemAddress'') entry1
         else entry1)"

text \<open>\<open>_handle_event\<close> returns nothing; after the request it only logs, whatever the
  answer is.\<close>

definition handle_event :: "network \<Rightarrow> pydict \<Rightarrow> pydict \<Rightarrow> world \<Rightarrow> world" where
  "handle_event net entry state w =
     (if no_api_key w then w
      else
        (case send net (journal_request (the_api_key w) ''EDStS'' (enrich entry state)) w of
           (NetError, w1) \<Rightarrow> w1
         | (Reply status_code body, w1) \<Rightarrow>
             if status_code = 401 then w1
             else if status_code \<noteq> 200 then w1
             else w1))"

section \<open>The ingestion entry point\<close>

definition journal_entry :: "pydict \<Rightarrow> pydict \<Rightarrow> world \<Rightarrow> pyerror + world" where
  "journal_entry entry state w =
     (if \<not> truthy (is_connected w) then Inr w
      else process_event entry state w)"

section \<open>The worker loops\<close>

text \<open>
  One pass through the body of a loop either goes on, leaves the loop, or (the blocking
  \<open>get\<close> of the fleet-carrier worker on an empty queue) waits. Each \<open>queue.get\<close> is
  recorded as \<open>Fetch\<close>, each \<open>time.sleep(n)\<close> as \<open>Sleep n\<close>.

  The general worker polls with a timeout of five seconds; on an empty queue \<open>get\<close>
  raises \<open>Empty\<close>, which the \<open>except Exception\<close> of the loop catches and answers with
  a sleep of five seconds.
\<close>

datatype loop_ctl = Continue | Break | Blocked

definition worker_iter :: "network \<Rightarrow> world \<Rightarrow> loop_ctl \<times> world" where
  "worker_iter net w =
     (case event_queue w of
        [] \<Rightarrow> (Continue, emit (Sleep 5) (emit Fetch w))
      | None # q \<Rightarrow> (Break, emit Fetch (w\<lparr>event_queue := q\<rparr>))
      | Some event # q \<Rightarrow>
          (case submit_journal_event net event (emit Fetch (w\<lparr>event_queue := q\<rparr>)) of
             (success, w1) \<Rightarrow>
               if \<not> success then (Continue, emit (Sleep 5) w1) else (Continue, w1)))"

text \<open>The loop \<open>while not this.shutting_down\<close>, observed for at most \<open>n\<close> passes.\<close>

fun worker :: "network \<Rightarrow> nat \<Rightarrow> world \<Rightarrow> world" where
  "worker net 0 w = w"
| "worker net (Suc n) w =
     (if shutting_down w then w
      else (case worker_iter net w of
              (Continue, w1) \<Rightarrow> worker net n w1
            | (ctl, w1) \<Rightarrow> w1))"

definition fc_worker_iter :: "network \<Rightarrow> world \<Rightarrow> loop_ctl \<times> world" where
  "fc_worker_iter net w =
     (case fc_queue w of
        [] \<Rightarrow> (Blocked, w)
      | None # q \<Rightarrow> (Break, emit Fetch (w\<lparr>fc_queue := q\<rparr>))
      | Some (entry, state) # q \<Rightarrow>
          (Continue, handle_event net entry state (emit Fetch (w\<lparr>fc_queue := q\<rparr>))))"

fun fc_worker_loop :: "network \<Rightarrow> nat \<Rightarrow> world \<Rightarrow> world" where
  "fc_worker_loop net 0 w = w"
| "fc_worker_loop net (Suc n) w =
     (if fc_shutting_down w then w
      else (case fc_worker_iter net w of
              (Continue, w1) \<Rightarrow> fc_worker_loop net n w1
            | (ctl, w1) \<Rightarrow> w1))"

section \<open>The running system\<close>

text \<open>
  The host calls the hooks, the user presses the buttons of the preferences tab, the
  timer fires and the two worker threads run their loops. A run of the system is a list of
  such actions, one pass of a loop body being one action. An exception of \<open>journal_entry\<close>
  goes back to the host and leaves the state as it was.
\<close>

datatype action =
    PluginStart
  | PluginApp
  | PluginStop
  | JournalEntry pydict pydict
  | WorkerPass
  | FcWorkerPass
  | TimerFire nat
  | SaveApiKey string
  | ClearApiKey
  | SaveUserPermissions string

definition worker_pass :: "network \<Rightarrow> world \<Rightarrow> world" where
  "worker_pass net w =
     (if worker_thread w \<noteq> Some Alive then w
      else if shutting_down w then w\<lparr>worker_thread := Some Finished\<rparr>
      else (case worker_iter net w of
              (Break, w1) \<Rightarrow> w1\<lparr>worker_thread := Some Finished\<rparr>
            | (ctl, w1) \<Rightarrow> w1))"

definition fc_worker_pass :: "network \<Rightarrow> world \<Rightarrow> world" where
  "fc_worker_pass net w =
     (if fc_worker_thread w \<noteq> Some Alive then w
      else if fc_shutting_down w then w\<lparr>fc_worker_thread := Some Finished\<rparr>
      else (case fc_worker_iter net w of
              (Break, w1) \<Rightarrow> w1\<lparr>fc_worker_thread := Some Finished\<rparr>
            | (ctl, w1) \<Rightarrow> w1))"

fun step :: "network \<Rightarrow> action \<Rightarrow> world \<Rightarrow> world" where
  "step net PluginStart w = plugin_start3 w"
| "step net PluginApp w = plugin_app net w"
| "step net PluginStop w = plugin_stop w"
| "step net (JournalEntry entry state) w =
     (case journal_entry entry state w of Inl e \<Rightarrow> w | Inr w1 \<Rightarrow> w1)"
| "step net WorkerPass w = worker_pass net w"
| "step net FcWorkerPass w = fc_worker_pass net w"
| "step net (TimerFire i) w = timer_fire net i w"
| "step net (SaveApiKey api_key) w = save_api_key net api_key w"
| "step net ClearApiKey w = clear_api_key net w"
| "step net (SaveUserPermissions permissions) w = save_user_permissions permissions w"

fun run :: "network \<Rightarrow> action list \<Rightarrow> world \<Rightarrow> world" where
  "run net [] w = w"
| "run net (a # as) w = run net as (step net a w)"

section \<open>Vocabulary of the properties and sample data\<close>

text \<open>A permission tag is trimmed when it is not empty and neither starts nor ends with
  white space.\<close>

definition trimmed :: "string \<Rightarrow> bool" where
  "trimmed t = (t \<noteq> [] \<and> \<not> isspace (hd t) \<and> \<not> isspace (last t))"

text \<open>
  The permission header in the words of the specification. The configured permission tags
  are the comma-separated pieces of the setting, trimmed, blank pieces left out; an unset
  setting has none. With no tag configured the header is the bare literal, and otherwise
  it is the literal followed by every tag with a comma in front:
  \<open>EDStS,{perm1},{perm2},...\<close>.
\<close>

definition configured_tags :: "string option \<Rightarrow> string list" where
  "configured_tags permissions =
     (case permissions of
        None \<Rightarrow> []
      | Some s \<Rightarrow> filter (\<lambda>t. t \<noteq> []) (map strip (split_on CHR '','' s)))"

definition spec_permission_header :: "string option \<Rightarrow> string" where
  "spec_permission_header permissions =
     (if configured_tags permissions = [] then ''EDStS''
      else ''EDStS'' @ concat (map (\<lambda>t. '','' @ t) (configured_tags permissions)))"

text \<open>A setting that is not empty and yet holds no tag.\<close>

definition tagless :: "string option \<Rightarrow> bool" where
  "tagless permissions =
     (case permissions of
        None \<Rightarrow> False
      | Some s \<Rightarrow> s \<noteq> [] \<and> configured_tags permissions = [])"

text \<open>Only a string has the method \<open>lower\<close>.\<close>

fun is_str :: "pyval \<Rightarrow> bool" where
  "is_str (PStr s) = True"
| "is_str v = False"

text \<open>A body whose \<open>valid\<close> is a number.\<close>

definition number_body :: pyval where
  "number_body = PDict [(''valid'', PInt 1)]"

text \<open>A connected state with a key and permissions configured, a journal entry and the
  auxiliary state that comes with it.\<close>

definition demo_world :: world where
  "demo_world = init_world
     \<lparr>config := \<lparr>edsts_api_key = Some ''key'', edsts_user_permissions = Some '' admin, ,fc ''\<rparr>,
      is_connected := PBool True\<rparr>"

definition demo_entry :: pydict where
  "demo_entry = [(''event'', PStr ''Docked''), (''_shipId'', PInt 5)]"

definition demo_state :: pydict where
  "demo_state = [(''ShipID'', PInt 7), (''SystemAddress'', PInt 42)]"

text \<open>An entry of an event that no category lists.\<close>

definition other_entry :: pydict where
  "other_entry = [(''timestamp'', PStr ''2024-01-01T00:00:00Z''), (''event'', PStr ''FSDJump'')]"


text \<open>Only a dictionary has the method \<open>get\<close>.\<close>

fun is_dict :: "pyval \<Rightarrow> bool" where
  "is_dict (PDict d) = True"
| "is_dict v = False"

text \<open>Two bodies of a verification reply.\<close>

definition true_body :: pyval where
  "true_body = PDict [(''valid'', PStr ''TRUE''), (''user'', PStr ''cmdr'')]"

definition verified_body :: pyval where
  "verified_body = PDict [(''valid'', PBool True)]"

text \<open>The status code of an answer, if there is one.\<close>

fun status_of :: "net_result \<Rightarrow> int option" where
  "status_of NetError = None"
| "status_of (Reply status_code body) = Some status_code"

text \<open>
  A network that accepts the key once and fails afterwards, and the state it leads to:
  the key is saved and verified, an accepted event is queued for the fleet-carrier worker,
  and a second verification fails before the worker takes the event.
\<close>

definition flaky_net :: network where
  "flaky_net n r = (if n = 0 then Reply 200 (Some verified_body) else NetError)"

definition stale_world :: world where
  "stale_world =
     run flaky_net
       [PluginStart, SaveApiKey ''key'', JournalEntry demo_entry demo_state, SaveApiKey ''key'']
       init_world"

text \<open>A network that answers every submission with 401 and fails every verification.\<close>

definition rejecting_net :: network where
  "rejecting_net n r = (case r of Post url headers payload t \<Rightarrow> Reply 401 None | Get url params t \<Rightarrow> NetError)"

text \<open>A network that accepts every key and every event, and the state after the
  plugin was started, given a key, shown in the main window and stopped again.\<close>

definition accepting_net :: network where
  "accepting_net n r = Reply 200 (Some verified_body)"

definition stopped_world :: world where
  "stopped_world =
     run accepting_net [PluginStart, SaveApiKey ''key'', PluginApp, PluginStop] init_world"

text \<open>Two accepted events waiting in the queue of the fleet-carrier worker.\<close>

definition undocked_entry :: pydict where
  "undocked_entry = [(''event'', PStr ''Undocked'')]"

definition backlog_world :: world where
  "backlog_world =
     run accepting_net
       [PluginStart, SaveApiKey ''key'', JournalEntry demo_entry demo_state,
        JournalEntry undocked_entry demo_state]
       init_world"

text \<open>An event in the queue of the general worker.\<close>

definition queued_world :: world where
  "queued_world = demo_world\<lparr>event_queue := [Some demo_entry]\<rparr>"

text \<open>The number of events in a queue, the stop sentinels not counted.\<close>

definition pending :: "'a option list \<Rightarrow> nat" where
  "pending q = length (filter (\<lambda>x. x \<noteq> None) q)"

section \<open>Basic facts\<close>

lemma requests_of_append: "requests_of (xs @ ys) = requests_of xs @ requests_of ys"
  by (induction xs rule: requests_of.induct) simp_all

lemma sleeps_of_append: "sleeps_of (xs @ ys) = sleeps_of xs @ sleeps_of ys"
  by (induction xs rule: sleeps_of.induct) simp_all

lemma emit_fields:
  "config (emit e w) = config w"
  "is_connected (emit e w) = is_connected w"
  "last_activity_check (emit e w) = last_activity_check w"
  "event_queue (emit e w) = event_queue w"
  "fc_queue (emit e w) = fc_queue w"
  "timers (emit e w) = timers w"
  "verification_timer (emit e w) = verification_timer w"
  "status_label (emit e w) = status_label w"
  "shutting_down (emit e w) = shutting_down w"
  "fc_shutting_down (emit e w) = fc_shutting_down w"
  "worker_thread (emit e w) = worker_thread w"
  "fc_worker_thread (emit e w) = fc_worker_thread w"
  "effects (emit e w) = effects w @ [e]"
  by (simp_all add: emit_def)

lemma no_api_key_emit: "no_api_key (emit e w) = no_api_key w"
  by (simp add: no_api_key_def emit_fields)

lemma the_api_key_emit: "the_api_key (emit e w) = the_api_key w"
  by (simp add: the_api_key_def emit_fields)

lemma demo_world_fields:
  "truthy (is_connected demo_world)"
  "\<not> no_api_key demo_world"
  "the_api_key demo_world = ''key''"
  "edsts_user_permissions (config demo_world) = Some '' admin, ,fc ''"
  "effects demo_world = []"
  by (simp_all add: demo_world_def init_world_def no_api_key_def the_api_key_def)

subsection \<open>The general submission, case by case\<close>

lemma submit_guarded:
  "\<not> truthy (is_connected w) \<or> no_api_key w \<Longrightarrow> submit_journal_event net event w = (False, w)"
  by (auto simp: submit_journal_event_def)

lemma submit_sent:
  assumes "truthy (is_connected w)" "\<not> no_api_key w"
  shows "submit_journal_event net event w =
     (let r = journal_request (the_api_key w) (get_permissions_header (config w)) event;
          w1 = emit (Net r) w
      in (case net (length (requests_of (effects w))) r of
            NetError \<Rightarrow> (False, w1)
          | Reply sc body \<Rightarrow>
              if sc = 401 then (False, w1\<lparr>is_connected := PBool False\<rparr>)
              else (sc = 200, w1)))"
  using assms by (auto simp: submit_journal_event_def send_def Let_def split: net_result.splits)

lemma submit_requests:
  "truthy (is_connected w) \<Longrightarrow> \<not> no_api_key w \<Longrightarrow>
   requests_of (effects (snd (submit_journal_event net event w))) =
     requests_of (effects w) @
       [journal_request (the_api_key w) (get_permissions_header (config w)) event]"
  by (simp add: submit_sent Let_def emit_fields requests_of_append split: net_result.splits)

subsection \<open>The fleet-carrier submission\<close>

lemma handle_event_world:
  "handle_event net entry state w =
     (if no_api_key w then w
      else emit (Net (journal_request (the_api_key w) ''EDStS'' (enrich entry state))) w)"
  by (simp add: handle_event_def send_def split: net_result.splits)

section \<open>The permission header\<close>

lemma join_tags: "ts \<noteq> [] \<Longrightarrow> '','' @ join '','' ts = concat (map (\<lambda>t. '','' @ t) ts)"
proof (induction ts)
  case Nil
  then show ?case by simp
next
  case (Cons t ts)
  then show ?case by (cases ts) simp_all
qed

lemma last_dropWhile_keep: "dropWhile P xs \<noteq> [] \<Longrightarrow> last (dropWhile P xs) = last xs"
  by (induction xs) (auto split: if_splits)

lemma strip_trimmed:
  assumes "strip p \<noteq> []"
  shows "trimmed (strip p)"
proof -
  define ys where "ys = dropWhile isspace p"
  define zs where "zs = dropWhile isspace (rev ys)"
  have s: "strip p = rev zs" by (simp add: strip_def ys_def zs_def)
  with assms have zs: "zs \<noteq> []" by simp
  then have ys: "ys \<noteq> []" by (auto simp: zs_def)
  have "\<not> isspace (hd zs)" using zs unfolding zs_def by (simp add: hd_dropWhile)
  then have l: "\<not> isspace (last (strip p))" using zs by (simp add: s last_rev)
  have "last zs = last (rev ys)" using zs unfolding zs_def by (rule last_dropWhile_keep)
  then have "hd (strip p) = hd ys" using zs ys by (simp add: s hd_rev last_rev)
  moreover have "\<not> isspace (hd ys)" using ys unfolding ys_def by (simp add: hd_dropWhile)
  ultimately show ?thesis using assms l by (simp add: trimmed_def)
qed

lemma comprehension_filter_map:
  "[f p. p \<leftarrow> xs, f p \<noteq> []] = filter (\<lambda>t. t \<noteq> []) (map f xs)"
  by (induction xs) simp_all

text \<open>The header of the code, written with the configured tags.\<close>

lemma header_code:
  "get_permissions_header cfg =
     (case edsts_user_permissions cfg of
        None \<Rightarrow> ''EDStS''
      | Some s \<Rightarrow> if s = [] then ''EDStS'' else ''EDStS,'' @ join '','' (configured_tags (Some s)))"
  by (simp add: get_permissions_header_def configured_tags_def comprehension_filter_map
      split: option.splits)

lemma configured_tags_trimmed: "t \<in> set (configured_tags p) \<Longrightarrow> trimmed t"
  by (auto simp: configured_tags_def intro: strip_trimmed split: option.splits)

lemma tagless_empty [simp]: "\<not> tagless None" "\<not> tagless (Some [])"
  by (simp_all add: tagless_def)

lemma header_refines:
  assumes "\<not> tagless (edsts_user_permissions cfg)"
  shows "get_permissions_header cfg = spec_permission_header (edsts_user_permissions cfg)"
proof (cases "edsts_user_permissions cfg")
  case None
  then show ?thesis
    by (simp add: header_code spec_permission_header_def configured_tags_def)
next
  case (Some s)
  show ?thesis
  proof (cases "s = []")
    case True
    with Some show ?thesis
      by (simp add: header_code spec_permission_header_def configured_tags_def strip_def)
  next
    case False
    with Some assms have t: "configured_tags (Some s) \<noteq> []" by (simp add: tagless_def)
    have e: "'','' @ join '','' (configured_tags (Some s)) =
        concat (map (\<lambda>t. '','' @ t) (configured_tags (Some s)))"
      by (rule join_tags [OF t])
    from Some False
    have "get_permissions_header cfg = ''EDStS,'' @ join '','' (configured_tags (Some s))"
      by (simp add: header_code)
    also have "\<dots> = ''EDStS'' @ ('','' @ join '','' (configured_tags (Some s)))"
      by simp
    also have "\<dots> = ''EDStS'' @ concat (map (\<lambda>t. '','' @ t) (configured_tags (Some s)))"
      by (simp only: e)
    also have "\<dots> = spec_permission_header (Some s)"
      by (simp only: spec_permission_header_def t if_False)
    finally show ?thesis by (simp only: Some)
  qed
qed

text \<open>A setting that is not empty and holds no tag (blanks and commas only) gets the
  literal with a comma and nothing behind it.\<close>

lemma header_tagless:
  "tagless (edsts_user_permissions cfg) \<Longrightarrow> get_permissions_header cfg = ''EDStS,''"
  by (auto simp: tagless_def header_code split: option.splits)

lemma demo_tags: "configured_tags (Some '' admin, ,fc '') = [''admin'', ''fc'']"
  by code_simp

lemma demo_header: "spec_permission_header (Some '' admin, ,fc '') = ''EDStS,admin,fc''"
  by code_simp

lemma demo_not_tagless: "\<not> tagless (edsts_user_permissions (config demo_world))"
  by code_simp

text \<open>
  Claim C8 is not met where the permission setting is not empty and holds no tag. The
  code drops the blank pieces of the setting, but it has tested the raw setting for
  emptiness before: with the setting \<open>" , "\<close> no permission tag is configured, the
  specification gives the bare \<open>EDStS\<close>, and the general profile sends \<open>EDStS,\<close>.
\<close>

theorem header_trailing_comma:
  "configured_tags (Some '' , '') = []
   \<and> spec_permission_header (Some '' , '') = ''EDStS''
   \<and> get_permissions_header \<lparr>edsts_api_key = Some ''key'', edsts_user_permissions = Some '' , ''\<rparr>
       = ''EDStS,''"
  by code_simp

text \<open>
  For every other configuration, that is a permission setting that is unset, empty or
  holds at least one tag, the header computed for the general profile is the header of the
  specification: the literal \<open>EDStS\<close> when no tag is configured, and otherwise
  \<open>EDStS\<close> followed by each trimmed tag with a comma in front. Every configured tag is
  trimmed and not empty. The request of the general profile carries this value in its
  \<open>x-permissions\<close> header, and the request of the fleet-carrier profile carries the bare
  literal \<open>EDStS\<close> there whatever is configured.
\<close>

lemma permission_header_requests:
  "(\<not> tagless (edsts_user_permissions cfg) \<longrightarrow>
        get_permissions_header cfg = spec_permission_header (edsts_user_permissions cfg))
   \<and> (\<forall>t \<in> set (configured_tags p). trimmed t)
   \<and> (truthy (is_connected w) \<and> \<not> no_api_key w \<and> \<not> tagless (edsts_user_permissions (config w)) \<longrightarrow>
        requests_of (effects (snd (submit_journal_event net event w))) =
          requests_of (effects w) @
            [Post JOURNAL_ENDPOINT
               [(''Content-Type'', ''application/json''),
                (''x-api-key'', the_api_key w),
                (''x-permissions'', spec_permission_header (edsts_user_permissions (config w)))]
               event 10])
   \<and> (\<not> no_api_key w \<longrightarrow>
        requests_of (effects (handle_event net entry state w)) =
          requests_of (effects w) @
            [Post JOURNAL_ENDPOINT
               [(''Content-Type'', ''application/json''),
                (''x-api-key'', the_api_key w),
                (''x-permissions'', ''EDStS'')]
               (enrich entry state) 10])"
proof (intro conjI ballI impI)
  assume "\<not> tagless (edsts_user_permissions cfg)"
  then show "get_permissions_header cfg = spec_permission_header (edsts_user_permissions cfg)"
    by (rule header_refines)
next
  fix t assume "t \<in> set (configured_tags p)"
  then show "trimmed t" by (rule configured_tags_trimmed)
next
  assume "truthy (is_connected w) \<and> \<not> no_api_key w \<and> \<not> tagless (edsts_user_permissions (config w))"
  then show "requests_of (effects (snd (submit_journal_event net event w))) =
          requests_of (effects w) @
            [Post JOURNAL_ENDPOINT
               [(''Content-Type'', ''application/json''),
                (''x-api-key'', the_api_key w),
                (''x-permissions'', spec_permission_header (edsts_user_permissions (config w)))]
               event 10]"
    by (simp add: submit_requests header_refines journal_request_def)
next
  assume "\<not> no_api_key w"
  then show "requests_of (effects (handle_event net entry state w)) =
          requests_of (effects w) @
            [Post JOURNAL_ENDPOINT
               [(''Content-Type'', ''application/json''),
                (''x-api-key'', the_api_key w),
                (''x-permissions'', ''EDStS'')]
               (enrich entry state) 10]"
    by (simp add: handle_event_world emit_fields requests_of_append journal_request_def)
qed

lemma permission_header_requests_example:
  "truthy (is_connected demo_world) \<and> \<not> no_api_key demo_world
   \<and> \<not> tagless (edsts_user_permissions (config demo_world))
   \<and> ''admin'' \<in> set (configured_tags (Some '' admin, ,fc ''))
   \<and> trimmed ''admin''
   \<and> get_permissions_header (config demo_world) = ''EDStS,admin,fc''
   \<and> requests_of (effects (snd (submit_journal_event (\<lambda>n r. Reply 200 None) demo_entry demo_world))) =
       [Post JOURNAL_ENDPOINT
          [(''Content-Type'', ''application/json''), (''x-api-key'', ''key''),
           (''x-permissions'', ''EDStS,admin,fc'')]
          demo_entry 10]
   \<and> requests_of (effects (handle_event (\<lambda>n r. Reply 200 None) demo_entry demo_state demo_world)) =
       [Post JOURNAL_ENDPOINT
          [(''Content-Type'', ''application/json''), (''x-api-key'', ''key''),
           (''x-permissions'', ''EDStS'')]
          (enrich demo_entry demo_state) 10]"
proof -
  note t = permission_header_requests [of "config demo_world" "Some '' admin, ,fc ''" demo_world
      "\<lambda>n r. Reply 200 None" demo_entry demo_entry demo_state]
  have m: "''admin'' \<in> set (configured_tags (Some '' admin, ,fc ''))"
    by (simp only: demo_tags) simp
  with t have "trimmed ''admin''" by blast
  moreover from t demo_not_tagless demo_world_fields
  have "get_permissions_header (config demo_world) = ''EDStS,admin,fc''"
    by (simp add: demo_header)
  moreover from t demo_not_tagless demo_world_fields
  have "requests_of (effects (snd (submit_journal_event (\<lambda>n r. Reply 200 None) demo_entry demo_world))) =
       [Post JOURNAL_ENDPOINT
          [(''Content-Type'', ''application/json''), (''x-api-key'', ''key''),
           (''x-permissions'', ''EDStS,admin,fc'')]
          demo_entry 10]"
    by (simp add: demo_header)
  moreover from t demo_world_fields
  have "requests_of (effects (handle_event (\<lambda>n r. Reply 200 None) demo_entry demo_state demo_world)) =
       [Post JOURNAL_ENDPOINT
          [(''Content-Type'', ''application/json''), (''x-api-key'', ''key''),
           (''x-permissions'', ''EDStS'')]
          (enrich demo_entry demo_state) 10]"
    by simp
  ultimately show ?thesis using m demo_not_tagless demo_world_fields by blast
qed

section \<open>The event filter and the ingestion entry point\<close>

lemma should_handle_event_string:
  "py_get entry ''event'' = PStr name \<Longrightarrow>
   should_handle_event entry = Inr (name \<in> set FC_EVENTS)"
  by (auto simp: should_handle_event_def Let_def)

lemma journal_entry_cases:
  "journal_entry entry state w =
     (if \<not> truthy (is_connected w) then Inr w
      else if \<not> hashable (py_get entry ''event'') then Inl TypeError
      else if py_get entry ''event'' \<in> set (map PStr FC_EVENTS)
           then Inr (w\<lparr>fc_queue := fc_queue w @ [Some (entry, state)]\<rparr>)
           else Inr w)"
  by (simp add: journal_entry_def process_event_def should_handle_event_def Let_def)

text \<open>
  The filter of the fleet-carrier worker, the only one the ingestion uses, does what the
  claim says: for an event name that is a string and not in \<open>FC_EVENTS\<close> it returns
  \<open>False\<close> without raising, and \<open>journal_entry\<close> returns the state as it was, so that
  nothing is put on any queue.
\<close>

lemma fc_filter_rejects_unlisted_events:
  assumes "py_get entry ''event'' = PStr name"
    and "name \<notin> set FC_EVENTS"
  shows "should_handle_event entry = Inr False
       \<and> journal_entry entry state w = Inr w
       \<and> step net (JournalEntry entry state) w = w"
  using assms by (auto simp: should_handle_event_string journal_entry_cases)

lemma fc_filter_rejects_fsd_jump:
  "truthy (is_connected demo_world)
   \<and> should_handle_event other_entry = Inr False
   \<and> journal_entry other_entry demo_state demo_world = Inr demo_world"
proof -
  have h: "py_get other_entry ''event'' = PStr ''FSDJump''" "''FSDJump'' \<notin> set FC_EVENTS"
    by (simp_all add: other_entry_def py_get_def FC_EVENTS_def)
  from fc_filter_rejects_unlisted_events [OF h, of demo_state demo_world]
  show ?thesis using demo_world_fields(1) by blast
qed

text \<open>
  Claim C6 is not met by \<open>should_process_event\<close>, the filter of load.py: the set it tests
  is an unbound global, so a call with any event name, listed or not, raises
  \<open>NameError\<close> instead of returning a bool.
\<close>

theorem should_process_event_raises:
  "should_process_event ''FSDJump'' ''2024-01-01T00:00:00Z'' = Inl NameError"
  by (simp add: should_process_event_def IMPORTANT_EVENTS_def)

lemma should_process_event_always_raises:
  "should_process_event event_name timestamp = Inl NameError"
  by (simp add: should_process_event_def IMPORTANT_EVENTS_def)

section \<open>Enrichment\<close>

lemma enrich_ship:
  "truthy (py_get state ''ShipID'') \<Longrightarrow>
   map_of (enrich entry state) ''_shipId'' = Some (py_get state ''ShipID'')"
  by (simp add: enrich_def Let_def update_conv')

lemma enrich_system:
  "truthy (py_get state ''SystemAddress'') \<Longrightarrow>
   map_of (enrich entry state) ''_systemAddress'' = Some (py_get state ''SystemAddress'')"
  by (simp add: enrich_def Let_def update_conv')

lemma enrich_other:
  "k \<noteq> ''_shipId'' \<Longrightarrow> k \<noteq> ''_systemAddress'' \<Longrightarrow>
   map_of (enrich entry state) k = map_of entry k"
  by (simp add: enrich_def Let_def update_conv')

lemma enrich_falsy:
  "\<not> truthy (py_get state ''ShipID'') \<Longrightarrow>
   map_of (enrich entry state) ''_shipId'' = map_of entry ''_shipId''"
  by (simp add: enrich_def Let_def update_conv')

text \<open>
  Claim C2, as amended. When the auxiliary state has a true \<open>ShipID\<close>
  (\<open>SystemAddress\<close>), the payload's \<open>_shipId\<close> (\<open>_systemAddress\<close>) equals it, whether
  or not the raw event had a field of that name: the assignment overwrites. Every other
  field of the raw event is unchanged, and the enriched entry is the body of the request
  the fleet-carrier worker sends.
\<close>

theorem enrichment_assigns:
  "(truthy (py_get state ''ShipID'') \<longrightarrow>
      map_of (enrich entry state) ''_shipId'' = Some (py_get state ''ShipID''))
   \<and> (truthy (py_get state ''SystemAddress'') \<longrightarrow>
      map_of (enrich entry state) ''_systemAddress'' = Some (py_get state ''SystemAddress''))
   \<and> (k \<noteq> ''_shipId'' \<and> k \<noteq> ''_systemAddress'' \<longrightarrow>
      map_of (enrich entry state) k = map_of entry k)
   \<and> (\<not> no_api_key w \<longrightarrow>
      effects (handle_event net entry state w) =
        effects w @ [Net (journal_request (the_api_key w) ''EDStS'' (enrich entry state))])"
  by (simp add: enrich_ship enrich_system enrich_other handle_event_world emit_fields)

text \<open>
  Claim C2 as stated fails: a raw event that already has \<open>_shipId = 5\<close>, enriched with
  \<open>ShipID = 7\<close>, ends with \<open>_shipId = 7\<close>.
\<close>

theorem enrichment_clobbers:
  "map_of demo_entry ''_shipId'' = Some (PInt 5)
   \<and> map_of demo_state ''ShipID'' = Some (PInt 7)
   \<and> map_of (enrich demo_entry demo_state) ''_shipId'' = Some (PInt 7)"
  by (simp add: demo_entry_def demo_state_def enrich_def py_get_def)

text \<open>A \<open>ShipID\<close> of zero fails the truth test of line 95 and is not copied.\<close>

lemma enrich_zero_ship_id:
  "enrich [(''event'', PStr ''Docked'')] [(''ShipID'', PInt 0)] = [(''event'', PStr ''Docked'')]"
  by (simp add: enrich_def py_get_def)

theorem enrichment_assigns_witness:
  "truthy (py_get demo_state ''ShipID'') \<and> truthy (py_get demo_state ''SystemAddress'')
   \<and> ''event'' \<noteq> ''_shipId'' \<and> ''event'' \<noteq> ''_systemAddress'' \<and> \<not> no_api_key demo_world
   \<and> map_of (enrich demo_entry demo_state) ''_shipId'' = Some (PInt 7)
   \<and> map_of (enrich demo_entry demo_state) ''_systemAddress'' = Some (PInt 42)
   \<and> map_of (enrich demo_entry demo_state) ''event'' = Some (PStr ''Docked'')
   \<and> effects (handle_event (\<lambda>n r. NetError) demo_entry demo_state demo_world) =
        [Net (journal_request ''key'' ''EDStS'' (enrich demo_entry demo_state))]"
proof -
  have h: "truthy (py_get demo_state ''ShipID'')" "truthy (py_get demo_state ''SystemAddress'')"
    "py_get demo_state ''ShipID'' = PInt 7" "py_get demo_state ''SystemAddress'' = PInt 42"
    "map_of demo_entry ''event'' = Some (PStr ''Docked'')"
    by (simp_all add: demo_state_def demo_entry_def py_get_def)
  from enrichment_assigns [of demo_state demo_entry "''event''" demo_world "\<lambda>n r. NetError"]
  show ?thesis using h demo_world_fields by simp
qed

section \<open>Lower case\<close>

lemma of_char_lower_char:
  "(of_char (lower_char c) :: nat) =
     (if (65 \<le> (of_char c :: nat) \<and> (of_char c :: nat) \<le> 90)
         \<or> (192 \<le> (of_char c :: nat) \<and> (of_char c :: nat) \<le> 222 \<and> (of_char c :: nat) \<noteq> 215)
      then of_char c + 32 else of_char c)"
  by (auto simp: lower_char_def Let_def)

lemma lower_char_is:
  assumes "97 \<le> m" "m \<le> 122"
  shows "lower_char c = char_of (m :: nat) \<longleftrightarrow> c = char_of m \<or> c = char_of (m - 32)"
proof -
  have "lower_char c = char_of m \<longleftrightarrow> (of_char (lower_char c) :: nat) = of_char (char_of m :: char)"
    by (simp only: of_char_eq_iff)
  also have "\<dots> \<longleftrightarrow> (of_char c :: nat) = m \<or> (of_char c :: nat) = m - 32"
    using assms by (auto simp: of_char_lower_char)
  also have "\<dots> \<longleftrightarrow> (of_char c :: nat) = of_char (char_of m :: char)
      \<or> (of_char c :: nat) = of_char (char_of (m - 32) :: char)"
    using assms by simp
  also have "\<dots> \<longleftrightarrow> c = char_of m \<or> c = char_of (m - 32)"
    by (simp only: of_char_eq_iff)
  finally show ?thesis .
qed

lemma letters:
  "CHR ''t'' = char_of (116::nat)" "CHR ''T'' = char_of (116 - 32 :: nat)"
  "CHR ''r'' = char_of (114::nat)" "CHR ''R'' = char_of (114 - 32 :: nat)"
  "CHR ''u'' = char_of (117::nat)" "CHR ''U'' = char_of (117 - 32 :: nat)"
  "CHR ''e'' = char_of (101::nat)" "CHR ''E'' = char_of (101 - 32 :: nat)"
  by code_simp+

lemma lower_char_true_letters:
  "lower_char c = CHR ''t'' \<longleftrightarrow> c = CHR ''t'' \<or> c = CHR ''T''"
  "lower_char c = CHR ''r'' \<longleftrightarrow> c = CHR ''r'' \<or> c = CHR ''R''"
  "lower_char c = CHR ''u'' \<longleftrightarrow> c = CHR ''u'' \<or> c = CHR ''U''"
  "lower_char c = CHR ''e'' \<longleftrightarrow> c = CHR ''e'' \<or> c = CHR ''E''"
  unfolding letters by (rule lower_char_is; simp)+

lemma lower_true_iff:
  "lower s = ''true'' \<longleftrightarrow>
     (\<exists>a b c d. s = [a, b, c, d] \<and> (a = CHR ''t'' \<or> a = CHR ''T'') \<and> (b = CHR ''r'' \<or> b = CHR ''R'')
        \<and> (c = CHR ''u'' \<or> c = CHR ''U'') \<and> (d = CHR ''e'' \<or> d = CHR ''E''))"
proof -
  have "lower s = ''true'' \<longleftrightarrow>
     (\<exists>a b c d. s = [a, b, c, d] \<and> lower_char a = CHR ''t'' \<and> lower_char b = CHR ''r''
        \<and> lower_char c = CHR ''u'' \<and> lower_char d = CHR ''e'')"
    unfolding lower_def by (auto simp: map_eq_Cons_conv)
  then show ?thesis by (simp only: lower_char_true_letters)
qed

section \<open>What each operation leaves alone\<close>

lemma verify_api_key_world:
  "snd (verify_api_key net k w) =
     (emit (Net (verify_request k)) w)\<lparr>is_connected := fst (verify_api_key net k w)\<rparr>"
  by (simp add: verify_api_key_def send_def split: net_result.splits option.splits)

lemma verify_fields:
  "config (snd (verify_api_key net k w)) = config w"
  "status_label (snd (verify_api_key net k w)) = status_label w"
  "verification_timer (snd (verify_api_key net k w)) = verification_timer w"
  "timers (snd (verify_api_key net k w)) = timers w"
  "event_queue (snd (verify_api_key net k w)) = event_queue w"
  "is_connected (snd (verify_api_key net k w)) = fst (verify_api_key net k w)"
  "last_activity_check (snd (verify_api_key net k w)) = last_activity_check w"
  "worker_thread (snd (verify_api_key net k w)) = worker_thread w"
  "shutting_down (snd (verify_api_key net k w)) = shutting_down w"
  "fc_queue (snd (verify_api_key net k w)) = fc_queue w"
  "fc_worker_thread (snd (verify_api_key net k w)) = fc_worker_thread w"
  "fc_shutting_down (snd (verify_api_key net k w)) = fc_shutting_down w"
  "effects (snd (verify_api_key net k w)) = effects w @ [Net (verify_request k)]"
  by (simp_all add: verify_api_key_world emit_fields)

lemma update_status_label_fields:
  "config (update_status_label net w) = config w"
  "verification_timer (update_status_label net w) = verification_timer w"
  "timers (update_status_label net w) = timers w"
  "event_queue (update_status_label net w) = event_queue w"
  "last_activity_check (update_status_label net w) = last_activity_check w"
  "worker_thread (update_status_label net w) = worker_thread w"
  "shutting_down (update_status_label net w) = shutting_down w"
  "fc_queue (update_status_label net w) = fc_queue w"
  "fc_worker_thread (update_status_label net w) = fc_worker_thread w"
  "fc_shutting_down (update_status_label net w) = fc_shutting_down w"
  by (simp_all add: update_status_label_def verify_fields case_prod_beta split: option.splits)

lemma schedule_verification_fields:
  "config (schedule_verification w) = config w"
  "status_label (schedule_verification w) = status_label w"
  "event_queue (schedule_verification w) = event_queue w"
  "is_connected (schedule_verification w) = is_connected w"
  "last_activity_check (schedule_verification w) = last_activity_check w"
  "worker_thread (schedule_verification w) = worker_thread w"
  "shutting_down (schedule_verification w) = shutting_down w"
  "fc_queue (schedule_verification w) = fc_queue w"
  "fc_worker_thread (schedule_verification w) = fc_worker_thread w"
  "fc_shutting_down (schedule_verification w) = fc_shutting_down w"
  "effects (schedule_verification w) = effects w"
  by (simp_all add: schedule_verification_def Let_def)

lemma submit_fields:
  "config (snd (submit_journal_event net event w)) = config w"
  "status_label (snd (submit_journal_event net event w)) = status_label w"
  "verification_timer (snd (submit_journal_event net event w)) = verification_timer w"
  "timers (snd (submit_journal_event net event w)) = timers w"
  "event_queue (snd (submit_journal_event net event w)) = event_queue w"
  "last_activity_check (snd (submit_journal_event net event w)) = last_activity_check w"
  "worker_thread (snd (submit_journal_event net event w)) = worker_thread w"
  "shutting_down (snd (submit_journal_event net event w)) = shutting_down w"
  "fc_queue (snd (submit_journal_event net event w)) = fc_queue w"
  "fc_worker_thread (snd (submit_journal_event net event w)) = fc_worker_thread w"
  "fc_shutting_down (snd (submit_journal_event net event w)) = fc_shutting_down w"
  by (simp_all add: submit_journal_event_def send_def emit_fields split: net_result.splits)

lemma handle_event_fields:
  "config (handle_event net entry state w) = config w"
  "status_label (handle_event net entry state w) = status_label w"
  "verification_timer (handle_event net entry state w) = verification_timer w"
  "timers (handle_event net entry state w) = timers w"
  "event_queue (handle_event net entry state w) = event_queue w"
  "is_connected (handle_event net entry state w) = is_connected w"
  "last_activity_check (handle_event net entry state w) = last_activity_check w"
  "worker_thread (handle_event net entry state w) = worker_thread w"
  "shutting_down (handle_event net entry state w) = shutting_down w"
  "fc_queue (handle_event net entry state w) = fc_queue w"
  "fc_worker_thread (handle_event net entry state w) = fc_worker_thread w"
  "fc_shutting_down (handle_event net entry state w) = fc_shutting_down w"
  by (simp_all add: handle_event_world emit_fields)

lemma worker_iter_fields:
  "config (snd (worker_iter net w)) = config w"
  "status_label (snd (worker_iter net w)) = status_label w"
  "verification_timer (snd (worker_iter net w)) = verification_timer w"
  "timers (snd (worker_iter net w)) = timers w"
  "event_queue (snd (worker_iter net w)) = tl (event_queue w)"
  "last_activity_check (snd (worker_iter net w)) = last_activity_check w"
  "worker_thread (snd (worker_iter net w)) = worker_thread w"
  "shutting_down (snd (worker_iter net w)) = shutting_down w"
  "fc_queue (snd (worker_iter net w)) = fc_queue w"
  "fc_worker_thread (snd (worker_iter net w)) = fc_worker_thread w"
  "fc_shutting_down (snd (worker_iter net w)) = fc_shutting_down w"
  by (simp_all add: worker_iter_def submit_fields emit_fields case_prod_beta
        split: list.splits option.splits)

lemma fc_worker_iter_fields:
  "config (snd (fc_worker_iter net w)) = config w"
  "status_label (snd (fc_worker_iter net w)) = status_label w"
  "verification_timer (snd (fc_worker_iter net w)) = verification_timer w"
  "timers (snd (fc_worker_iter net w)) = timers w"
  "event_queue (snd (fc_worker_iter net w)) = event_queue w"
  "is_connected (snd (fc_worker_iter net w)) = is_connected w"
  "last_activity_check (snd (fc_worker_iter net w)) = last_activity_check w"
  "worker_thread (snd (fc_worker_iter net w)) = worker_thread w"
  "shutting_down (snd (fc_worker_iter net w)) = shutting_down w"
  "fc_queue (snd (fc_worker_iter net w)) = tl (fc_queue w)"
  "fc_worker_thread (snd (fc_worker_iter net w)) = fc_worker_thread w"
  "fc_shutting_down (snd (fc_worker_iter net w)) = fc_shutting_down w"
  by (simp_all add: fc_worker_iter_def handle_event_fields emit_fields case_prod_beta
        split: list.splits option.splits)

lemma worker_pass_fields:
  "config (worker_pass net w) = config w"
  "status_label (worker_pass net w) = status_label w"
  "verification_timer (worker_pass net w) = verification_timer w"
  "timers (worker_pass net w) = timers w"
  "last_activity_check (worker_pass net w) = last_activity_check w"
  "shutting_down (worker_pass net w) = shutting_down w"
  "fc_queue (worker_pass net w) = fc_queue w"
  "fc_worker_thread (worker_pass net w) = fc_worker_thread w"
  "fc_shutting_down (worker_pass net w) = fc_shutting_down w"
  "event_queue (worker_pass net w) = event_queue w \<or> event_queue (worker_pass net w) = tl (event_queue w)"
  using worker_iter_fields [of net w]
  by (auto simp: worker_pass_def split: prod.splits loop_ctl.splits)

lemma fc_worker_pass_fields:
  "config (fc_worker_pass net w) = config w"
  "status_label (fc_worker_pass net w) = status_label w"
  "verification_timer (fc_worker_pass net w) = verification_timer w"
  "timers (fc_worker_pass net w) = timers w"
  "event_queue (fc_worker_pass net w) = event_queue w"
  "is_connected (fc_worker_pass net w) = is_connected w"
  "last_activity_check (fc_worker_pass net w) = last_activity_check w"
  "worker_thread (fc_worker_pass net w) = worker_thread w"
  "shutting_down (fc_worker_pass net w) = shutting_down w"
  "fc_shutting_down (fc_worker_pass net w) = fc_shutting_down w"
  using fc_worker_iter_fields [of net w]
  by (auto simp: fc_worker_pass_def split: prod.splits loop_ctl.splits)

lemma periodic_check_fields:
  "config (periodic_check net w) = config w"
  "event_queue (periodic_check net w) = event_queue w"
  "last_activity_check (periodic_check net w) = last_activity_check w"
  "fc_queue (periodic_check net w) = fc_queue w"
  by (simp_all add: periodic_check_def schedule_verification_fields update_status_label_fields)

lemma step_last_activity_check:
  "last_activity_check (step net a w) = last_activity_check w"
  by (cases a)
     (simp_all add: plugin_start3_def plugin_app_def plugin_stop_def fc_stop_def
        journal_entry_cases timer_fire_def save_api_key_def clear_api_key_def
        save_user_permissions_def periodic_check_fields schedule_verification_fields
        update_status_label_fields verify_fields worker_pass_fields fc_worker_pass_fields
        case_prod_beta)

lemma run_last_activity_check:
  "last_activity_check (run net as w) = last_activity_check w"
  by (induction as arbitrary: w) (simp_all add: step_last_activity_check)

section \<open>Verification\<close>

lemma verify_result:
  "fst (verify_api_key net k w) =
     (case net (length (requests_of (effects w))) (verify_request k) of
        NetError \<Rightarrow> PBool False
      | Reply sc body \<Rightarrow>
          (case body of
             None \<Rightarrow> PBool False
           | Some result \<Rightarrow> (case valid_field result of None \<Rightarrow> PBool False | Some v \<Rightarrow> v)))"
  by (simp add: verify_api_key_def send_def split: net_result.splits option.splits)

lemma valid_field_not_dict: "\<not> is_dict v \<Longrightarrow> valid_field v = None"
  by (cases v) (simp_all add: valid_field_def)

lemma valid_field_dict:
  "valid_field (PDict d) =
     Some (case map_of d ''valid'' of
             None \<Rightarrow> PBool False
           | Some (PStr s) \<Rightarrow> PBool (lower s = ''true'')
           | Some v \<Rightarrow> v)"
  by (simp add: valid_field_def py_get_default_def Let_def split: option.splits pyval.splits)

lemma valid_field_other:
  "map_of d ''valid'' = Some u \<Longrightarrow> \<not> is_str u \<Longrightarrow> valid_field (PDict d) = Some u"
  by (cases u) (simp_all add: valid_field_dict)

text \<open>
  Claim C3, as amended. \<open>verify_api_key\<close> never raises. It returns \<open>False\<close> on a
  transport failure or timeout, on a body that is not JSON, on a JSON value that is not an
  object and on an object without \<open>valid\<close>. A \<open>valid\<close> that is not a string is
  returned as it is (a boolean as that boolean), and for a string \<open>valid\<close> the result is
  whether the string is \<open>true\<close> in some letter case. The status code of the reply is
  never consulted: the result is a true value exactly when the reply, whatever its status,
  is an object whose \<open>valid\<close> is such a string or a value that is not a string and is
  true under the truth test of Python (the boolean \<open>True\<close>, and also a number other than
  zero, a list or an object that is not empty).
\<close>

theorem verify_reads_valid_field:
  fixes net k w
  defines "answer \<equiv> net (length (requests_of (effects w))) (verify_request k)"
  shows "(answer = NetError \<longrightarrow> fst (verify_api_key net k w) = PBool False)
   \<and> (answer = Reply sc None \<longrightarrow> fst (verify_api_key net k w) = PBool False)
   \<and> (answer = Reply sc (Some v) \<and> \<not> is_dict v \<longrightarrow> fst (verify_api_key net k w) = PBool False)
   \<and> (answer = Reply sc (Some (PDict d)) \<and> map_of d ''valid'' = None \<longrightarrow>
        fst (verify_api_key net k w) = PBool False)
   \<and> (answer = Reply sc (Some (PDict d)) \<and> map_of d ''valid'' = Some u \<and> \<not> is_str u \<longrightarrow>
        fst (verify_api_key net k w) = u)
   \<and> (answer = Reply sc (Some (PDict d)) \<and> map_of d ''valid'' = Some (PStr s) \<longrightarrow>
        fst (verify_api_key net k w) = PBool (lower s = ''true''))
   \<and> (lower s = ''true'' \<longleftrightarrow>
        (\<exists>c1 c2 c3 c4. s = [c1, c2, c3, c4]
           \<and> (c1 = CHR ''t'' \<or> c1 = CHR ''T'') \<and> (c2 = CHR ''r'' \<or> c2 = CHR ''R'')
           \<and> (c3 = CHR ''u'' \<or> c3 = CHR ''U'') \<and> (c4 = CHR ''e'' \<or> c4 = CHR ''E'')))
   \<and> (truthy (fst (verify_api_key net k w)) \<longleftrightarrow>
        (\<exists>sc' d' u'. answer = Reply sc' (Some (PDict d')) \<and> map_of d' ''valid'' = Some u'
           \<and> ((\<exists>s'. u' = PStr s' \<and> lower s' = ''true'') \<or> (\<not> is_str u' \<and> truthy u'))))"
proof -
  have last: "truthy (fst (verify_api_key net k w)) \<longleftrightarrow>
        (\<exists>sc' d' u'. answer = Reply sc' (Some (PDict d')) \<and> map_of d' ''valid'' = Some u'
           \<and> ((\<exists>s'. u' = PStr s' \<and> lower s' = ''true'') \<or> (\<not> is_str u' \<and> truthy u')))"
  proof (cases answer)
    case NetError
    then show ?thesis by (simp add: verify_result answer_def)
  next
    case (Reply sc' body)
    show ?thesis
    proof (cases body)
      case None
      with Reply show ?thesis by (simp add: verify_result answer_def)
    next
      case (Some result)
      show ?thesis
      proof (cases "is_dict result")
        case False
        with Reply Some show ?thesis
          by (cases result) (auto simp: verify_result answer_def valid_field_not_dict)
      next
        case True
        then obtain d' where d': "result = PDict d'" by (cases result) simp_all
        show ?thesis
        proof (cases "map_of d' ''valid''")
          case None
          with Reply Some d' show ?thesis
            by (simp add: verify_result answer_def valid_field_dict)
        next
          case u: (Some u')
          show ?thesis
          proof (cases "is_str u'")
            case False
            then have "\<And>s'. u' \<noteq> PStr s'" by auto
            with False Reply Some d' u show ?thesis
              by (simp add: verify_result answer_def valid_field_other)
          next
            case True
            then obtain s' where "u' = PStr s'" by (cases u') simp_all
            with Reply Some d' u show ?thesis
              by (simp add: verify_result answer_def valid_field_dict)
          qed
        qed
      qed
    qed
  qed
  have c1: "answer = NetError \<longrightarrow> fst (verify_api_key net k w) = PBool False"
    and c2: "answer = Reply sc None \<longrightarrow> fst (verify_api_key net k w) = PBool False"
    and c3: "answer = Reply sc (Some v) \<and> \<not> is_dict v \<longrightarrow> fst (verify_api_key net k w) = PBool False"
    and c4: "answer = Reply sc (Some (PDict d)) \<and> map_of d ''valid'' = None \<longrightarrow>
        fst (verify_api_key net k w) = PBool False"
    and c6: "answer = Reply sc (Some (PDict d)) \<and> map_of d ''valid'' = Some (PStr s) \<longrightarrow>
        fst (verify_api_key net k w) = PBool (lower s = ''true'')"
    by (auto simp: verify_result answer_def valid_field_not_dict valid_field_dict)
  have c5: "answer = Reply sc (Some (PDict d)) \<and> map_of d ''valid'' = Some u \<and> \<not> is_str u \<longrightarrow>
        fst (verify_api_key net k w) = u"
    by (auto simp: verify_result answer_def valid_field_other)
  have c7: "lower s = ''true'' \<longleftrightarrow>
        (\<exists>c1 c2 c3 c4. s = [c1, c2, c3, c4]
           \<and> (c1 = CHR ''t'' \<or> c1 = CHR ''T'') \<and> (c2 = CHR ''r'' \<or> c2 = CHR ''R'')
           \<and> (c3 = CHR ''u'' \<or> c3 = CHR ''U'') \<and> (c4 = CHR ''e'' \<or> c4 = CHR ''E''))"
    by (rule lower_true_iff)
  show ?thesis
    by (intro conjI) (fact c1, fact c2, fact c3, fact c4, fact c5, fact c6, fact c7, fact last)
qed

text \<open>A \<open>valid\<close> of \<open>1\<close> is returned and stored as the number, which is a true value.\<close>

lemma verify_number_is_valid:
  "fst (verify_api_key (\<lambda>n r. Reply 200 (Some number_body)) ''key'' init_world) = PInt 1
   \<and> truthy (is_connected (snd (verify_api_key (\<lambda>n r. Reply 200 (Some number_body)) ''key'' init_world)))"
  by code_simp

text \<open>
  Claim C3 as stated fails on a reply that is not 2xx: with status 500 and the body
  \<open>{"valid": true}\<close> the key is taken as valid.
\<close>

theorem verify_ignores_status:
  "fst (verify_api_key (\<lambda>n r. Reply 500 (Some verified_body)) ''key'' init_world) = PBool True"
  by (simp add: verify_result verified_body_def valid_field_dict)

theorem verify_reads_valid_field_witness:
  "(\<lambda>n r. Reply 200 (Some true_body)) (length (requests_of (effects init_world))) (verify_request ''key'')
      = Reply 200 (Some (PDict [(''valid'', PStr ''TRUE''), (''user'', PStr ''cmdr'')]))
   \<and> map_of [(''valid'', PStr ''TRUE''), (''user'', PStr ''cmdr'')] ''valid'' = Some (PStr ''TRUE'')
   \<and> lower ''TRUE'' = ''true''
   \<and> fst (verify_api_key (\<lambda>n r. Reply 200 (Some true_body)) ''key'' init_world) = PBool True"
proof -
  have l: "lower ''TRUE'' = ''true''" by code_simp
  have a: "(\<lambda>n r. Reply 200 (Some true_body)) (length (requests_of (effects init_world))) (verify_request ''key'')
      = Reply 200 (Some (PDict [(''valid'', PStr ''TRUE''), (''user'', PStr ''cmdr'')]))"
    by (simp add: true_body_def)
  have m: "map_of [(''valid'', PStr ''TRUE''), (''user'', PStr ''cmdr'')] ''valid'' = Some (PStr ''TRUE'')"
    by simp
  from verify_reads_valid_field [where net = "\<lambda>n r. Reply 200 (Some true_body)" and k = "''key''"
      and w = init_world and sc = 200 and d = "[(''valid'', PStr ''TRUE''), (''user'', PStr ''cmdr'')]"
      and s = "''TRUE''"] a m
  have "fst (verify_api_key (\<lambda>n r. Reply 200 (Some true_body)) ''key'' init_world)
      = PBool (lower ''TRUE'' = ''true'')" by blast
  with l a m show ?thesis by simp
qed

text \<open>
  Claim C7, as amended. Every call of \<open>verify_api_key\<close> writes the value it returns into
  \<open>is_connected\<close>, and leaves \<open>last_activity_check\<close> as it was; no operation of the
  plugin writes that field, which therefore is \<open>None\<close> in every run.
\<close>

theorem verify_writes_connected_flag_only:
  "is_connected (snd (verify_api_key net k w)) = fst (verify_api_key net k w)
   \<and> last_activity_check (snd (verify_api_key net k w)) = last_activity_check w
   \<and> last_activity_check (run net as init_world) = PNone"
  by (simp add: verify_fields run_last_activity_check) (simp add: init_world_def)

text \<open>
  Claim C7 as stated fails: after a successful verification in the initial state the
  last-checked field is still \<open>None\<close>, no time stamp has been written.
\<close>

theorem verify_leaves_last_check_unset:
  "fst (verify_api_key (\<lambda>n r. Reply 200 (Some verified_body)) ''key'' init_world) = PBool True
   \<and> last_activity_check init_world = PNone
   \<and> last_activity_check (snd (verify_api_key (\<lambda>n r. Reply 200 (Some verified_body)) ''key'' init_world)) = PNone"
  by (simp add: verify_result verified_body_def valid_field_dict verify_fields) (simp add: init_world_def)

section \<open>Ingestion and the general queue\<close>

lemma step_journal_entry:
  "step net (JournalEntry entry state) w = w
   \<or> step net (JournalEntry entry state) w = w\<lparr>fc_queue := fc_queue w @ [Some (entry, state)]\<rparr>"
  by (simp add: journal_entry_cases)

lemma step_sentinels:
  "list_all (\<lambda>x. x = None) (event_queue w) \<Longrightarrow> list_all (\<lambda>x. x = None) (event_queue (step net a w))"
proof (cases a)
  case WorkerPass
  assume s: "list_all (\<lambda>x. x = None) (event_queue w)"
  then have "list_all (\<lambda>x. x = None) (tl (event_queue w))" by (cases "event_queue w") simp_all
  with s WorkerPass worker_pass_fields(10) [of net w] show ?thesis by auto
qed (simp_all add: plugin_start3_def plugin_app_def plugin_stop_def fc_stop_def
        journal_entry_cases timer_fire_def save_api_key_def clear_api_key_def
        save_user_permissions_def periodic_check_fields schedule_verification_fields
        update_status_label_fields verify_fields fc_worker_pass_fields case_prod_beta)

lemma run_sentinels:
  "list_all (\<lambda>x. x = None) (event_queue w) \<Longrightarrow> list_all (\<lambda>x. x = None) (event_queue (run net as w))"
  by (induction as arbitrary: w) (simp_all add: step_sentinels)

lemma worker_iter_sentinels:
  assumes "list_all (\<lambda>x. x = None) (event_queue w)"
  shows "requests_of (effects (snd (worker_iter net w))) = requests_of (effects w)"
    and "list_all (\<lambda>x. x = None) (event_queue (snd (worker_iter net w)))"
  using assms
  by (auto simp: worker_iter_def emit_fields requests_of_append split: list.splits option.splits)

lemma worker_pass_sentinels:
  "list_all (\<lambda>x. x = None) (event_queue w) \<Longrightarrow>
   requests_of (effects (worker_pass net w)) = requests_of (effects w)"
  using worker_iter_sentinels(1) [of w net]
  by (auto simp: worker_pass_def split: prod.splits loop_ctl.splits)

lemma worker_sentinels:
  "list_all (\<lambda>x. x = None) (event_queue w) \<Longrightarrow>
   requests_of (effects (worker net n w)) = requests_of (effects w)"
proof (induction n arbitrary: w)
  case 0
  then show ?case by simp
next
  case (Suc n)
  from Suc.prems have i: "requests_of (effects (snd (worker_iter net w))) = requests_of (effects w)"
    and s: "list_all (\<lambda>x. x = None) (event_queue (snd (worker_iter net w)))"
    by (rule worker_iter_sentinels)+
  from Suc.IH [OF s] i show ?case
    by (auto split: prod.splits loop_ctl.splits)
qed

text \<open>
  Claim C5. \<open>journal_entry\<close> never touches the general queue and performs no request
  itself; it either leaves the fleet-carrier queue alone or appends the entry to it. In
  every run from the initial state the general queue holds nothing but stop sentinels, so
  neither a pass of the general worker nor its whole loop ever sends a request: the
  fleet-carrier profile is the only one an ingested event reaches.
\<close>

theorem ingestion_feeds_only_the_fc_queue:
  "event_queue (step net (JournalEntry entry state) w) = event_queue w
   \<and> effects (step net (JournalEntry entry state) w) = effects w
   \<and> (fc_queue (step net (JournalEntry entry state) w) = fc_queue w
      \<or> fc_queue (step net (JournalEntry entry state) w) = fc_queue w @ [Some (entry, state)])
   \<and> list_all (\<lambda>x. x = None) (event_queue (run net as init_world))
   \<and> requests_of (effects (step net WorkerPass (run net as init_world))) =
       requests_of (effects (run net as init_world))
   \<and> requests_of (effects (worker net n (run net as init_world))) =
       requests_of (effects (run net as init_world))"
proof -
  have s: "list_all (\<lambda>x. x = None) (event_queue (run net as init_world))"
    by (rule run_sentinels) (simp add: init_world_def)
  from step_journal_entry [of net entry state w]
  have "event_queue (step net (JournalEntry entry state) w) = event_queue w
   \<and> effects (step net (JournalEntry entry state) w) = effects w
   \<and> (fc_queue (step net (JournalEntry entry state) w) = fc_queue w
      \<or> fc_queue (step net (JournalEntry entry state) w) = fc_queue w @ [Some (entry, state)])"
    by auto
  with s show ?thesis
    by (simp add: worker_pass_sentinels worker_sentinels)
qed

lemma accepted_event_is_queued:
  "journal_entry demo_entry demo_state demo_world =
     Inr (demo_world\<lparr>fc_queue := [Some (demo_entry, demo_state)]\<rparr>)"
  by (simp add: journal_entry_cases demo_world_fields)
     (simp add: demo_entry_def py_get_def FC_EVENTS_def demo_world_def init_world_def)

section \<open>Guards and the connection state\<close>

lemma submit_connected:
  "is_connected (snd (submit_journal_event net event w)) =
     (if truthy (is_connected w) \<and> \<not> no_api_key w
         \<and> status_of (net (length (requests_of (effects w)))
               (journal_request (the_api_key w) (get_permissions_header (config w)) event)) = Some 401
      then PBool False else is_connected w)"
  by (auto simp: submit_journal_event_def send_def emit_fields split: net_result.splits)

lemma submit_result:
  "fst (submit_journal_event net event w) =
     (truthy (is_connected w) \<and> \<not> no_api_key w
      \<and> status_of (net (length (requests_of (effects w)))
            (journal_request (the_api_key w) (get_permissions_header (config w)) event)) = Some 200)"
  by (auto simp: submit_journal_event_def send_def split: net_result.splits)

lemma submit_stays_disconnected:
  "\<not> truthy (is_connected w) \<Longrightarrow> \<not> truthy (is_connected (snd (submit_journal_event net event w)))"
  by (simp add: submit_connected)

lemma worker_pass_stays_disconnected:
  "\<not> truthy (is_connected w) \<Longrightarrow> \<not> truthy (is_connected (worker_pass net w))"
  by (auto simp: worker_pass_def worker_iter_def emit_fields submit_guarded
      split: prod.splits loop_ctl.splits list.splits option.splits)

lemma update_status_label_connected:
  "is_connected (update_status_label net w) = is_connected w
   \<or> is_connected (update_status_label net w) = fst (verify_api_key net (the_api_key w) w)"
  by (simp add: update_status_label_def verify_fields case_prod_beta split: option.splits)

lemma step_stays_disconnected:
  assumes nv: "\<And>k w'. \<not> truthy (fst (verify_api_key net k w'))"
    and d: "\<not> truthy (is_connected w)"
  shows "\<not> truthy (is_connected (step net a w))"
proof -
  have u: "\<not> truthy (is_connected (update_status_label net w'))"
    if "\<not> truthy (is_connected w')" for w'
    using update_status_label_connected [of net w'] nv that by auto
  show ?thesis
  proof (cases a)
    case PluginStart
    with d show ?thesis by (simp add: plugin_start3_def)
  next
    case PluginApp
    with d u show ?thesis by (simp add: plugin_app_def schedule_verification_fields)
  next
    case PluginStop
    with d show ?thesis by (simp add: plugin_stop_def fc_stop_def)
  next
    case (JournalEntry entry state)
    with d show ?thesis by (simp add: journal_entry_cases)
  next
    case WorkerPass
    with d show ?thesis by (simp add: worker_pass_stays_disconnected)
  next
    case FcWorkerPass
    with d show ?thesis by (simp add: fc_worker_pass_fields)
  next
    case (TimerFire i)
    with d u show ?thesis
      by (simp add: timer_fire_def periodic_check_def schedule_verification_fields)
  next
    case (SaveApiKey k)
    with d u nv show ?thesis
      by (simp add: save_api_key_def case_prod_beta verify_fields)
  next
    case ClearApiKey
    with d u show ?thesis by (simp add: clear_api_key_def)
  next
    case (SaveUserPermissions p)
    with d show ?thesis by (simp add: save_user_permissions_def)
  qed
qed

lemma run_stays_disconnected:
  assumes nv: "\<And>k w'. \<not> truthy (fst (verify_api_key net k w'))"
  shows "\<not> truthy (is_connected w) \<Longrightarrow> \<not> truthy (is_connected (run net as w))"
  by (induction as arbitrary: w) (simp_all add: step_stays_disconnected [OF nv])

text \<open>
  Claim C4, as amended. In the general profile a reply 401 makes the submission return
  \<open>False\<close> and sets \<open>is_connected\<close> to \<open>False\<close>; any other answer (another status,
  an exception, a timeout) leaves \<open>is_connected\<close> as it was. Once the flag is false it
  stays false through every run of the system in which no verification succeeds. The
  fleet-carrier profile never changes the flag, whatever the answer is.
\<close>

theorem unauthorized_disconnects_general_profile:
  fixes net event w
  defines "answer \<equiv> net (length (requests_of (effects w)))
     (journal_request (the_api_key w) (get_permissions_header (config w)) event)"
  shows "(truthy (is_connected w) \<and> \<not> no_api_key w \<and> status_of answer = Some 401 \<longrightarrow>
        fst (submit_journal_event net event w) = False
        \<and> is_connected (snd (submit_journal_event net event w)) = PBool False)
   \<and> (status_of answer \<noteq> Some 401 \<longrightarrow>
        is_connected (snd (submit_journal_event net event w)) = is_connected w)
   \<and> (\<not> truthy (is_connected w0) \<and> (\<forall>k w'. \<not> truthy (fst (verify_api_key net0 k w'))) \<longrightarrow>
        \<not> truthy (is_connected (run net0 as w0)))
   \<and> is_connected (handle_event net entry state w) = is_connected w"
  using run_stays_disconnected [of net0 w0 as]
  by (auto simp: submit_connected submit_result answer_def handle_event_fields)

text \<open>
  Claim C1, as amended. The general profile returns \<open>False\<close> and leaves the whole state,
  the trace of requests included, unchanged when the connection flag is false or no
  non-empty key is configured. The fleet-carrier profile returns without a request when no
  non-empty key is configured; it does not read the connection flag, which is tested
  where the event comes in: a disconnected \<open>journal_entry\<close> queues nothing.
\<close>

theorem guards_short_circuit:
  "(\<not> truthy (is_connected w) \<or> no_api_key w \<longrightarrow> submit_journal_event net event w = (False, w))
   \<and> (no_api_key w \<longrightarrow> handle_event net entry state w = w)
   \<and> (\<not> truthy (is_connected w) \<longrightarrow> journal_entry entry state w = Inr w)"
  by (auto simp: submit_guarded handle_event_world journal_entry_cases)

lemma stale_world_eval:
  "stale_world = init_world
     \<lparr>config := \<lparr>edsts_api_key = Some ''key'', edsts_user_permissions = None\<rparr>,
      worker_thread := Some Alive, fc_worker_thread := Some Alive,
      fc_queue := [Some (demo_entry, demo_state)],
      is_connected := PBool False,
      effects := [Net (verify_request ''key''), Net (verify_request ''key'')]\<rparr>"
  by code_simp

theorem guards_short_circuit_witness:
  "\<not> truthy (is_connected init_world) \<and> no_api_key init_world
   \<and> submit_journal_event (\<lambda>n r. Reply 200 None) demo_entry init_world = (False, init_world)
   \<and> handle_event (\<lambda>n r. Reply 200 None) demo_entry demo_state init_world = init_world
   \<and> journal_entry demo_entry demo_state init_world = Inr init_world"
proof -
  have h: "\<not> truthy (is_connected init_world)" "no_api_key init_world"
    by (simp_all add: init_world_def no_api_key_def)
  from guards_short_circuit [of init_world "\<lambda>n r. Reply 200 None" demo_entry demo_entry demo_state] h
  show ?thesis by blast
qed

text \<open>
  Claim C1 as stated fails for the fleet-carrier profile: an event queued while connected
  is posted although the connection flag has become false in the meantime.
\<close>

theorem fc_sends_while_disconnected:
  "\<not> truthy (is_connected stale_world)
   \<and> effects (step flaky_net FcWorkerPass stale_world) =
       effects stale_world @ [Fetch, Net (journal_request ''key'' ''EDStS'' (enrich demo_entry demo_state))]"
  by code_simp

text \<open>
  Claim C4 as stated fails for the fleet-carrier profile: a reply 401 leaves the
  connection flag true.
\<close>

theorem fc_stays_connected_on_401:
  "truthy (is_connected demo_world)
   \<and> effects (handle_event (\<lambda>n r. Reply 401 None) demo_entry demo_state demo_world) =
       [Net (journal_request ''key'' ''EDStS'' (enrich demo_entry demo_state))]
   \<and> is_connected (handle_event (\<lambda>n r. Reply 401 None) demo_entry demo_state demo_world) = PBool True"
  by code_simp

lemma rejecting_net_no_verify: "\<not> truthy (fst (verify_api_key rejecting_net k w'))"
  by (simp add: verify_result verify_request_def rejecting_net_def)

theorem unauthorized_disconnects_general_profile_witness:
  "truthy (is_connected demo_world) \<and> \<not> no_api_key demo_world
   \<and> status_of (rejecting_net (length (requests_of (effects demo_world)))
        (journal_request (the_api_key demo_world) (get_permissions_header (config demo_world)) demo_entry))
       = Some 401
   \<and> fst (submit_journal_event rejecting_net demo_entry demo_world) = False
   \<and> is_connected (snd (submit_journal_event rejecting_net demo_entry demo_world)) = PBool False
   \<and> status_of ((\<lambda>n r. Reply 503 None) (length (requests_of (effects demo_world)))
        (journal_request (the_api_key demo_world) (get_permissions_header (config demo_world)) demo_entry))
       \<noteq> Some 401
   \<and> is_connected (snd (submit_journal_event (\<lambda>n r. Reply 503 None) demo_entry demo_world)) = PBool True
   \<and> (\<forall>k w'. \<not> truthy (fst (verify_api_key rejecting_net k w')))
   \<and> \<not> truthy (is_connected
         (run rejecting_net
            [JournalEntry demo_entry demo_state, WorkerPass, SaveApiKey ''other'', FcWorkerPass]
            (snd (submit_journal_event rejecting_net demo_entry demo_world))))"
proof -
  let ?w1 = "snd (submit_journal_event rejecting_net demo_entry demo_world)"
  let ?as = "[JournalEntry demo_entry demo_state, WorkerPass, SaveApiKey ''other'', FcWorkerPass]"
  have a: "status_of (rejecting_net (length (requests_of (effects demo_world)))
        (journal_request (the_api_key demo_world) (get_permissions_header (config demo_world)) demo_entry))
       = Some 401"
    by (simp add: rejecting_net_def journal_request_def)
  have b: "status_of ((\<lambda>n r. Reply 503 None) (length (requests_of (effects demo_world)))
        (journal_request (the_api_key demo_world) (get_permissions_header (config demo_world)) demo_entry))
       \<noteq> Some 401"
    by simp
  have c: "is_connected demo_world = PBool True"
    by (simp add: demo_world_def init_world_def)
  note t1 = unauthorized_disconnects_general_profile
    [where net = rejecting_net and event = demo_entry and w = demo_world
       and ?w0.0 = ?w1 and ?net0.0 = rejecting_net and as = ?as]
  note t2 = unauthorized_disconnects_general_profile
    [where net = "\<lambda>n r. Reply 503 None" and event = demo_entry and w = demo_world]
  from t1 a demo_world_fields(1,2)
  have d: "fst (submit_journal_event rejecting_net demo_entry demo_world) = False
        \<and> is_connected ?w1 = PBool False" by blast
  then have "\<not> truthy (is_connected ?w1)" by simp
  with t1 rejecting_net_no_verify have e: "\<not> truthy (is_connected (run rejecting_net ?as ?w1))"
    by blast
  from t2 b c have f: "is_connected (snd (submit_journal_event (\<lambda>n r. Reply 503 None) demo_entry demo_world)) = PBool True"
    by simp
  from a b d e f demo_world_fields(1,2) rejecting_net_no_verify show ?thesis by blast
qed

section \<open>The verification timer\<close>

lemma stopped_world_timer:
  "verification_timer stopped_world = Some 0" "timers stopped_world = [Armed]"
  "shutting_down stopped_world" "fc_shutting_down stopped_world"
  by code_simp+

lemma cancel_not_armed: "i < length ts \<Longrightarrow> cancel i ts ! i \<noteq> Armed"
  by (simp add: cancel_def)

lemma length_cancel: "length (cancel i ts) = length ts"
  by (simp add: cancel_def)

text \<open>
  Claim C9, as amended. \<open>plugin_stop\<close> does not cancel the verification timer: the
  timers and the timer the state refers to are after the stop what they were before, so
  an armed timer stays armed. The one cancellation of the program is in
  \<open>schedule_verification\<close>, which cancels the timer scheduled before and arms a new one.
\<close>

theorem stop_leaves_timer:
  "timers (plugin_stop w) = timers w
   \<and> verification_timer (plugin_stop w) = verification_timer w
   \<and> (verification_timer w = Some i \<and> i < length (timers w) \<longrightarrow>
        timers (schedule_verification w) ! i \<noteq> Armed)
   \<and> verification_timer (schedule_verification w) = Some (length (timers w))
   \<and> timers (schedule_verification w) ! length (timers w) = Armed"
  by (auto simp: plugin_stop_def fc_stop_def schedule_verification_def Let_def length_cancel
        nth_append cancel_not_armed split: option.splits)

text \<open>
  Claim C9 as stated fails: after \<open>plugin_stop\<close> the timer armed by \<open>plugin_app\<close> is
  still armed, and when it fires it verifies the key once more and arms the next timer.
\<close>

theorem stop_leaves_timer_armed:
  "shutting_down stopped_world \<and> fc_shutting_down stopped_world
   \<and> verification_timer stopped_world = Some 0
   \<and> timers stopped_world = [Armed]
   \<and> effects (step accepting_net (TimerFire 0) stopped_world) =
       effects stopped_world @ [Net (verify_request ''key'')]
   \<and> timers (step accepting_net (TimerFire 0) stopped_world) = [Fired, Armed]"
  by code_simp

theorem stop_leaves_timer_witness:
  "verification_timer stopped_world = Some 0 \<and> 0 < length (timers stopped_world)
   \<and> timers (plugin_stop stopped_world) = [Armed]
   \<and> timers (schedule_verification stopped_world) ! 0 \<noteq> Armed"
  using stop_leaves_timer [of stopped_world 0] stopped_world_timer by simp

section \<open>The worker loops\<close>

lemma worker_iter_queue: "event_queue (snd (worker_iter net w)) = tl (event_queue w)"
  by (rule worker_iter_fields)

lemma submit_effects:
  "effects (snd (submit_journal_event net event w)) = effects w
   \<or> effects (snd (submit_journal_event net event w)) =
       effects w @ [Net (journal_request (the_api_key w) (get_permissions_header (config w)) event)]"
  by (auto simp: submit_journal_event_def send_def emit_fields split: net_result.splits)

lemma submit_sleeps: "sleeps_of (effects (snd (submit_journal_event net event w))) = sleeps_of (effects w)"
  using submit_effects [of net event w] by (auto simp: sleeps_of_append)

lemma submit_request_count:
  "length (requests_of (effects (snd (submit_journal_event net event w))))
     \<le> Suc (length (requests_of (effects w)))"
  using submit_effects [of net event w] by (auto simp: requests_of_append)

lemma worker_iter_item:
  assumes "event_queue w = Some event # q"
  shows "worker_iter net w =
     (Continue,
      if fst (submit_journal_event net event (emit Fetch (w\<lparr>event_queue := q\<rparr>)))
      then snd (submit_journal_event net event (emit Fetch (w\<lparr>event_queue := q\<rparr>)))
      else emit (Sleep 5) (snd (submit_journal_event net event (emit Fetch (w\<lparr>event_queue := q\<rparr>)))))"
  using assms by (simp add: worker_iter_def case_prod_beta)

lemma worker_iter_request_count:
  "length (requests_of (effects (snd (worker_iter net w)))) \<le> Suc (length (requests_of (effects w)))"
proof (cases "event_queue w")
  case Nil
  then show ?thesis by (simp add: worker_iter_def emit_fields requests_of_append)
next
  case (Cons x q)
  show ?thesis
  proof (cases x)
    case None
    with Cons show ?thesis by (simp add: worker_iter_def emit_fields requests_of_append)
  next
    case (Some event)
    with Cons have "event_queue w = Some event # q" by simp
    from worker_iter_item [OF this, of net]
      submit_request_count [of net event "emit Fetch (w\<lparr>event_queue := q\<rparr>)"]
    show ?thesis by (simp add: emit_fields requests_of_append)
  qed
qed

lemma fc_worker_iter_sleeps:
  "sleeps_of (effects (snd (fc_worker_iter net w))) = sleeps_of (effects w)"
  by (simp add: fc_worker_iter_def handle_event_world emit_fields sleeps_of_append
        split: list.splits option.splits prod.splits)

lemma fc_worker_iter_request_count:
  "length (requests_of (effects (snd (fc_worker_iter net w)))) \<le> Suc (length (requests_of (effects w)))"
  by (simp add: fc_worker_iter_def handle_event_world emit_fields requests_of_append
        split: list.splits option.splits prod.splits)

lemma worker_iter_attempts:
  "length (requests_of (effects (snd (worker_iter net w)))) + pending (event_queue (snd (worker_iter net w)))
     \<le> length (requests_of (effects w)) + pending (event_queue w)"
proof (cases "event_queue w")
  case Nil
  with worker_iter_request_count [of net w] show ?thesis
    by (simp add: worker_iter_def emit_fields requests_of_append pending_def)
next
  case (Cons x q)
  then have t: "event_queue (snd (worker_iter net w)) = q" by (simp add: worker_iter_queue)
  show ?thesis
  proof (cases x)
    case None
    with Cons show ?thesis
      unfolding t by (simp add: worker_iter_def emit_fields requests_of_append pending_def)
  next
    case (Some item)
    with Cons worker_iter_request_count [of net w] show ?thesis
      unfolding t by (simp add: pending_def)
  qed
qed

lemma worker_attempts:
  "length (requests_of (effects (worker net n w))) + pending (event_queue (worker net n w))
     \<le> length (requests_of (effects w)) + pending (event_queue w)"
proof (induction n arbitrary: w)
  case 0
  show ?case by simp
next
  case (Suc n)
  let ?w1 = "snd (worker_iter net w)"
  note one = worker_iter_attempts [of net w]
  from Suc.IH [of ?w1] one
  have more: "length (requests_of (effects (worker net n ?w1))) + pending (event_queue (worker net n ?w1))
     \<le> length (requests_of (effects w)) + pending (event_queue w)"
    by simp
  show ?case
  proof (cases "shutting_down w")
    case True
    then show ?thesis by simp
  next
    case False
    show ?thesis
    proof (cases "fst (worker_iter net w)")
      case Continue
      with False have "worker net (Suc n) w = worker net n ?w1" by (simp add: case_prod_beta)
      with more show ?thesis by simp
    next
      case Break
      with False have "worker net (Suc n) w = ?w1" by (simp add: case_prod_beta)
      with one show ?thesis by simp
    next
      case Blocked
      with False have "worker net (Suc n) w = ?w1" by (simp add: case_prod_beta)
      with one show ?thesis by simp
    qed
  qed
qed

lemma worker_queue_suffix:
  "\<exists>k. event_queue (worker net n w) = drop k (event_queue w)"
proof (induction n arbitrary: w)
  case 0
  have "event_queue (worker net 0 w) = drop 0 (event_queue w)" by simp
  then show ?case by blast
next
  case (Suc n)
  let ?w1 = "snd (worker_iter net w)"
  have q: "event_queue ?w1 = drop 1 (event_queue w)" by (simp add: worker_iter_queue drop_Suc)
  from Suc.IH [of ?w1] obtain k where "event_queue (worker net n ?w1) = drop k (event_queue ?w1)"
    by blast
  with q have more: "event_queue (worker net n ?w1) = drop (k + 1) (event_queue w)"
    by (simp add: add.commute)
  have stay: "event_queue w = drop 0 (event_queue w)" by simp
  show ?case
  proof (cases "shutting_down w")
    case True
    with stay show ?thesis by (intro exI [of _ 0]) simp
  next
    case False
    show ?thesis
    proof (cases "fst (worker_iter net w)")
      case Continue
      with False have "worker net (Suc n) w = worker net n ?w1" by (simp add: case_prod_beta)
      with more show ?thesis by (intro exI [of _ "k + 1"]) simp
    next
      case Break
      with False have "worker net (Suc n) w = ?w1" by (simp add: case_prod_beta)
      with q show ?thesis by (intro exI [of _ 1]) simp
    next
      case Blocked
      with False have "worker net (Suc n) w = ?w1" by (simp add: case_prod_beta)
      with q show ?thesis by (intro exI [of _ 1]) simp
    qed
  qed
qed

lemma fc_worker_iter_attempts:
  "length (requests_of (effects (snd (fc_worker_iter net w)))) + pending (fc_queue (snd (fc_worker_iter net w)))
     \<le> length (requests_of (effects w)) + pending (fc_queue w)"
proof (cases "fc_queue w")
  case Nil
  with fc_worker_iter_request_count [of net w] show ?thesis
    by (simp add: fc_worker_iter_def emit_fields requests_of_append pending_def)
next
  case (Cons x q)
  then have t: "fc_queue (snd (fc_worker_iter net w)) = q" by (simp add: fc_worker_iter_fields)
  show ?thesis
  proof (cases x)
    case None
    with Cons show ?thesis
      unfolding t by (simp add: fc_worker_iter_def emit_fields requests_of_append pending_def)
  next
    case (Some item)
    with Cons fc_worker_iter_request_count [of net w] show ?thesis
      unfolding t by (simp add: pending_def)
  qed
qed

lemma fc_worker_loop_attempts:
  "length (requests_of (effects (fc_worker_loop net n w))) + pending (fc_queue (fc_worker_loop net n w))
     \<le> length (requests_of (effects w)) + pending (fc_queue w)"
proof (induction n arbitrary: w)
  case 0
  show ?case by simp
next
  case (Suc n)
  let ?w1 = "snd (fc_worker_iter net w)"
  note one = fc_worker_iter_attempts [of net w]
  from Suc.IH [of ?w1] one
  have more: "length (requests_of (effects (fc_worker_loop net n ?w1))) + pending (fc_queue (fc_worker_loop net n ?w1))
     \<le> length (requests_of (effects w)) + pending (fc_queue w)"
    by simp
  show ?case
  proof (cases "fc_shutting_down w")
    case True
    then show ?thesis by simp
  next
    case False
    show ?thesis
    proof (cases "fst (fc_worker_iter net w)")
      case Continue
      with False have "fc_worker_loop net (Suc n) w = fc_worker_loop net n ?w1" by (simp add: case_prod_beta)
      with more show ?thesis by simp
    next
      case Break
      with False have "fc_worker_loop net (Suc n) w = ?w1" by (simp add: case_prod_beta)
      with one show ?thesis by simp
    next
      case Blocked
      with False have "fc_worker_loop net (Suc n) w = ?w1" by (simp add: case_prod_beta)
      with one show ?thesis by simp
    qed
  qed
qed

lemma fc_worker_loop_queue_suffix:
  "\<exists>k. fc_queue (fc_worker_loop net n w) = drop k (fc_queue w)"
proof (induction n arbitrary: w)
  case 0
  have "fc_queue (fc_worker_loop net 0 w) = drop 0 (fc_queue w)" by simp
  then show ?case by blast
next
  case (Suc n)
  let ?w1 = "snd (fc_worker_iter net w)"
  have q: "fc_queue ?w1 = drop 1 (fc_queue w)" by (simp add: fc_worker_iter_fields drop_Suc)
  from Suc.IH [of ?w1] obtain k where "fc_queue (fc_worker_loop net n ?w1) = drop k (fc_queue ?w1)"
    by blast
  with q have more: "fc_queue (fc_worker_loop net n ?w1) = drop (k + 1) (fc_queue w)"
    by (simp add: add.commute)
  have stay: "fc_queue w = drop 0 (fc_queue w)" by simp
  show ?case
  proof (cases "fc_shutting_down w")
    case True
    with stay show ?thesis by (intro exI [of _ 0]) simp
  next
    case False
    show ?thesis
    proof (cases "fst (fc_worker_iter net w)")
      case Continue
      with False have "fc_worker_loop net (Suc n) w = fc_worker_loop net n ?w1" by (simp add: case_prod_beta)
      with more show ?thesis by (intro exI [of _ "k + 1"]) simp
    next
      case Break
      with False have "fc_worker_loop net (Suc n) w = ?w1" by (simp add: case_prod_beta)
      with q show ?thesis by (intro exI [of _ 1]) simp
    next
      case Blocked
      with False have "fc_worker_loop net (Suc n) w = ?w1" by (simp add: case_prod_beta)
      with q show ?thesis by (intro exI [of _ 1]) simp
    qed
  qed
qed

lemma worker_iter_starts_with_fetch:
  "\<exists>es. effects (snd (worker_iter net w)) = effects w @ Fetch # es"
proof (cases "event_queue w")
  case Nil
  then show ?thesis by (simp add: worker_iter_def emit_fields)
next
  case (Cons x q)
  show ?thesis
  proof (cases x)
    case None
    with Cons show ?thesis by (simp add: worker_iter_def emit_fields)
  next
    case (Some event)
    with Cons have "event_queue w = Some event # q" by simp
    from worker_iter_item [OF this, of net]
      submit_effects [of net event "emit Fetch (w\<lparr>event_queue := q\<rparr>)"]
    show ?thesis by (auto simp: emit_fields)
  qed
qed

text \<open>
  Claim C10, as amended. In the general worker loop a pass whose submission succeeded ends
  with the submission, without a sleep, and a pass whose submission failed ends with a
  sleep of five seconds; every pass begins with the fetch of the next item. The
  fleet-carrier loop never sleeps, whatever the outcome. In both loops an item taken from
  the queue is not put back, and in every pass and over the whole loop no more requests
  are sent than events have left the queue: at most one attempt for each event.
\<close>

theorem worker_backoff:
  fixes net event q w
  defines "w0 \<equiv> emit Fetch (w\<lparr>event_queue := q\<rparr>)"
  shows "(event_queue w = Some event # q \<and> fst (submit_journal_event net event w0) \<longrightarrow>
        worker_iter net w = (Continue, snd (submit_journal_event net event w0))
        \<and> sleeps_of (effects (snd (worker_iter net w))) = sleeps_of (effects w))
   \<and> (event_queue w = Some event # q \<and> \<not> fst (submit_journal_event net event w0) \<longrightarrow>
        worker_iter net w = (Continue, emit (Sleep 5) (snd (submit_journal_event net event w0)))
        \<and> sleeps_of (effects (snd (worker_iter net w))) = sleeps_of (effects w) @ [5])
   \<and> (\<exists>es. effects (snd (worker_iter net w)) = effects w @ Fetch # es)
   \<and> sleeps_of (effects (snd (fc_worker_iter net w))) = sleeps_of (effects w)
   \<and> event_queue (snd (worker_iter net w)) = tl (event_queue w)
   \<and> fc_queue (snd (fc_worker_iter net w)) = tl (fc_queue w)
   \<and> length (requests_of (effects (snd (worker_iter net w)))) + pending (event_queue (snd (worker_iter net w)))
        \<le> length (requests_of (effects w)) + pending (event_queue w)
   \<and> length (requests_of (effects (snd (fc_worker_iter net w)))) + pending (fc_queue (snd (fc_worker_iter net w)))
        \<le> length (requests_of (effects w)) + pending (fc_queue w)
   \<and> (\<exists>k. event_queue (worker net n w) = drop k (event_queue w))
   \<and> length (requests_of (effects (worker net n w))) + pending (event_queue (worker net n w))
        \<le> length (requests_of (effects w)) + pending (event_queue w)
   \<and> (\<exists>k. fc_queue (fc_worker_loop net n w) = drop k (fc_queue w))
   \<and> length (requests_of (effects (fc_worker_loop net n w))) + pending (fc_queue (fc_worker_loop net n w))
        \<le> length (requests_of (effects w)) + pending (fc_queue w)"
proof -
  have s: "sleeps_of (effects (snd (submit_journal_event net event w0))) = sleeps_of (effects w)"
    by (simp add: submit_sleeps w0_def emit_fields sleeps_of_append)
  have i: "event_queue w = Some event # q \<Longrightarrow>
      worker_iter net w =
        (Continue,
         if fst (submit_journal_event net event w0) then snd (submit_journal_event net event w0)
         else emit (Sleep 5) (snd (submit_journal_event net event w0)))"
    unfolding w0_def by (rule worker_iter_item)
  from s i have c1: "event_queue w = Some event # q \<and> fst (submit_journal_event net event w0) \<longrightarrow>
        worker_iter net w = (Continue, snd (submit_journal_event net event w0))
        \<and> sleeps_of (effects (snd (worker_iter net w))) = sleeps_of (effects w)"
    by simp
  from s i have c2: "event_queue w = Some event # q \<and> \<not> fst (submit_journal_event net event w0) \<longrightarrow>
        worker_iter net w = (Continue, emit (Sleep 5) (snd (submit_journal_event net event w0)))
        \<and> sleeps_of (effects (snd (worker_iter net w))) = sleeps_of (effects w) @ [5]"
    by (simp add: emit_fields sleeps_of_append)
  show ?thesis
    by (intro conjI)
       (fact c1, fact c2, fact worker_iter_starts_with_fetch, fact fc_worker_iter_sleeps,
        fact worker_iter_queue, fact fc_worker_iter_fields, fact worker_iter_attempts,
        fact fc_worker_iter_attempts, fact worker_queue_suffix, fact worker_attempts,
        fact fc_worker_loop_queue_suffix, fact fc_worker_loop_attempts)
qed

text \<open>
  Claim C10 as stated fails for the fleet-carrier loop: after a submission answered with
  status 500 the next item is fetched at once, no sleep in between.
\<close>

theorem fc_worker_never_sleeps:
  "fc_queue backlog_world = [Some (demo_entry, demo_state), Some (undocked_entry, demo_state)]
   \<and> effects (fc_worker_loop (\<lambda>n r. Reply 500 None) 2 backlog_world) =
       effects backlog_world @
         [Fetch, Net (journal_request ''key'' ''EDStS'' (enrich demo_entry demo_state)),
          Fetch, Net (journal_request ''key'' ''EDStS'' (enrich undocked_entry demo_state))]"
  by code_simp

lemma queued_world_submit:
  "event_queue queued_world = Some demo_entry # []"
  "fst (submit_journal_event accepting_net demo_entry (emit Fetch (queued_world\<lparr>event_queue := []\<rparr>)))"
  "\<not> fst (submit_journal_event (\<lambda>n r. Reply 503 None) demo_entry (emit Fetch (queued_world\<lparr>event_queue := []\<rparr>)))"
  "sleeps_of (effects queued_world) = []"
  by code_simp+

theorem worker_backoff_witness:
  "event_queue queued_world = Some demo_entry # []
   \<and> fst (submit_journal_event accepting_net demo_entry (emit Fetch (queued_world\<lparr>event_queue := []\<rparr>)))
   \<and> sleeps_of (effects (snd (worker_iter accepting_net queued_world))) = []
   \<and> \<not> fst (submit_journal_event (\<lambda>n r. Reply 503 None) demo_entry (emit Fetch (queued_world\<lparr>event_queue := []\<rparr>)))
   \<and> sleeps_of (effects (snd (worker_iter (\<lambda>n r. Reply 503 None) queued_world))) = [5]"
proof -
  note t1 = worker_backoff [where net = accepting_net and event = demo_entry and q = "[]"
      and w = queued_world]
  note t2 = worker_backoff [where net = "\<lambda>n r. Reply 503 None" and event = demo_entry and q = "[]"
      and w = queued_world]
  from t1 queued_world_submit(1,2)
  have a: "sleeps_of (effects (snd (worker_iter accepting_net queued_world))) = sleeps_of (effects queued_world)"
    by blast
  from t2 queued_world_submit(1,3)
  have b: "sleeps_of (effects (snd (worker_iter (\<lambda>n r. Reply 503 None) queued_world)))
      = sleeps_of (effects queued_world) @ [5]"
    by blast
  from a b queued_world_submit show ?thesis by simp
qed

end
